theory Spec2Isabelle
  imports Main "HOL-Library.Word" "HOL-Library.Sublist"
begin

section \<open>JavaScript strings\<close>

text \<open>
  A JavaScript string is a sequence of UTF-16 code units. Every string operation the
  handlers use (\<^verbatim>\<open>includes\<close>, \<^verbatim>\<open>startsWith\<close>, \<^verbatim>\<open>split\<close>, \<^verbatim>\<open>replace\<close> with a regular
  expression without the \<^verbatim>\<open>u\<close> flag) works on code units, so the model is a list of
  16-bit words. \<open>js\<close> embeds an ASCII literal.
\<close>

type_synonym jschar = "16 word"
type_synonym jsstring = "jschar list"
type_synonym byte = "8 word"

definition js :: "string \<Rightarrow> jsstring" where
  "js s = map of_char s"

definition startsWith :: "jsstring \<Rightarrow> jsstring \<Rightarrow> bool" where
  "startsWith s p = (take (length p) s = p)"

definition endsWith :: "jsstring \<Rightarrow> jsstring \<Rightarrow> bool" where
  "endsWith s p = (length p \<le> length s \<and> drop (length s - length p) s = p)"

fun includes_str :: "jsstring \<Rightarrow> jsstring \<Rightarrow> bool" where
  "includes_str [] sub = (sub = [])"
| "includes_str (c # cs) sub = (startsWith (c # cs) sub \<or> includes_str cs sub)"

text \<open>\<^verbatim>\<open>s.split(sep)\<close> for a one-character separator: one more piece than separators.\<close>

fun split :: "jsstring \<Rightarrow> jschar \<Rightarrow> jsstring list" where
  "split [] sep = [[]]"
| "split (c # cs) sep =
     (if c = sep then [] # split cs sep
      else (case split cs sep of [] \<Rightarrow> [[c]] | p # ps \<Rightarrow> (c # p) # ps))"

fun join :: "jsstring list \<Rightarrow> jsstring \<Rightarrow> jsstring" where
  "join [] sep = []"
| "join [p] sep = p"
| "join (p # q # ps) sep = p @ sep @ join (q # ps) sep"

text \<open>Decimal rendering of a non-negative integer, as a template literal does it.\<close>

function decimal :: "nat \<Rightarrow> jsstring" where
  "decimal n =
     (if n < 10 then [of_nat (48 + n)]
      else decimal (n div 10) @ [of_nat (48 + n mod 10)])"
  by pat_completeness auto
termination
  by (relation "measure id") auto

declare decimal.simps [simp del]

section \<open>Path utilities (backend/history/pathUtils.ts)\<close>

text \<open>\<^verbatim>\<open>projectPath.replace(/\/$/, "")\<close>: one trailing slash is removed, if there is one.\<close>

definition stripTrailingSlash :: "jsstring \<Rightarrow> jsstring" where
  "stripTrailingSlash p = (if p \<noteq> [] \<and> last p = 0x2F then butlast p else p)"

text \<open>\<^verbatim>\<open>normalizedPath.replace(/[/\\:.]/g, "-")\<close>.\<close>

definition hyphenate :: "jsstring \<Rightarrow> jsstring" where
  "hyphenate p = map (\<lambda>c. if c = 0x2F \<or> c = 0x5C \<or> c = 0x3A \<or> c = 0x2E then 0x2D else c) p"

definition expectedEncoded :: "jsstring \<Rightarrow> jsstring" where
  "expectedEncoded projectPath = hyphenate (stripTrailingSlash projectPath)"

text \<open>
  \<^verbatim>\<open>validateEncodedProjectName\<close>: false on the empty string and on any string matching
  \<^verbatim>\<open>/[<>:"|?*\x00-\x1f\/\\]/\<close>.
\<close>

definition dangerousChar :: "jschar \<Rightarrow> bool" where
  "dangerousChar c =
     (c = 0x3C \<or> c = 0x3E \<or> c = 0x3A \<or> c = 0x22 \<or> c = 0x7C \<or> c = 0x3F \<or> c = 0x2A
      \<or> c \<le> 0x1F \<or> c = 0x2F \<or> c = 0x5C)"

definition validateEncodedProjectName :: "jsstring \<Rightarrow> bool" where
  "validateEncodedProjectName encodedName =
     (if encodedName = [] then False
      else if list_ex dangerousChar encodedName then False
      else True)"

section \<open>The path resolver\<close>

text \<open>
  \<^verbatim>\<open>safeResolvePath\<close>: leading slashes are removed (\<^verbatim>\<open>replace(/^\/+/, "")\<close>), the rest is
  split on \<^verbatim>\<open>/\<close>, the segments \<^verbatim>\<open>""\<close>, \<^verbatim>\<open>"."\<close> and \<^verbatim>\<open>".."\<close> are dropped, and what is left
  is joined and appended to the base path.
\<close>

definition keepPart :: "jsstring \<Rightarrow> bool" where
  "keepPart part = (part \<noteq> [] \<and> part \<noteq> [0x2E] \<and> part \<noteq> [0x2E, 0x2E])"

definition safeResolvePath :: "jsstring \<Rightarrow> jsstring \<Rightarrow> jsstring" where
  "safeResolvePath basePath relativePath =
     (let cleanPath = dropWhile (\<lambda>c. c = 0x2F) relativePath;
          parts = filter keepPart (split cleanPath 0x2F)
      in basePath @ [0x2F] @ join parts [0x2F])"

text \<open>The boundary check of the three handlers.\<close>

definition traversal :: "jsstring \<Rightarrow> bool" where
  "traversal p = (includes_str p [0x2E, 0x2E] \<or> startsWith p [0x2F])"

section \<open>The runtime and the host\<close>

text \<open>
  A value that is thrown is an \<^verbatim>\<open>Error\<close> carrying its message, or something else; the
  handlers' \<^verbatim>\<open>catch\<close> blocks tell the two apart with \<^verbatim>\<open>instanceof Error\<close>.
\<close>

datatype thrown = Error jsstring | NonError

definition errorMessage :: "thrown \<Rightarrow> jsstring \<Rightarrow> jsstring" where
  "errorMessage e fallback = (case e of Error m \<Rightarrow> m | NonError \<Rightarrow> fallback)"

record DirectoryEntry =
  name :: jsstring
  isFile :: bool
  isDirectory :: bool

text \<open>
  What \<^verbatim>\<open>runtime.stat\<close> returns. \<open>st_mtime\<close> is the modification time in milliseconds, if
  the platform reports one.
\<close>

record FileStats =
  st_isDirectory :: bool
  st_size :: nat
  st_mtime :: "nat option"

text \<open>
  The \<^verbatim>\<open>Runtime\<close> interface. The file system does not change while one request is served,
  so every operation is a function of its arguments; an operation that can throw returns
  a sum. What the claims say about access to the file system is read from the list of
  calls each handler returns beside its response.
\<close>

record Runtime =
  getHomeDir :: "jsstring option"
  getCurrentWorkingDirectory :: jsstring
  readTextFile :: "jsstring \<Rightarrow> thrown + jsstring"
  readBinaryFile :: "jsstring \<Rightarrow> thrown + byte list"
  readDir :: "jsstring \<Rightarrow> thrown + DirectoryEntry list"
  exists :: "jsstring \<Rightarrow> bool"
  stat :: "jsstring \<Rightarrow> thrown + FileStats"
  mkdir :: "jsstring \<Rightarrow> thrown + unit"
  writeBinaryFile :: "jsstring \<Rightarrow> byte list \<Rightarrow> thrown + unit"

datatype fscall =
    ReadTextFile jsstring
  | ReadBinaryFile jsstring
  | ReadDir jsstring
  | Exists jsstring
  | Stat jsstring
  | Mkdir jsstring
  | WriteBinaryFile jsstring "byte list"

text \<open>
  What \<^verbatim>\<open>JSON.parse\<close> and \<^verbatim>\<open>Object.entries(config.projects)\<close> make of the configuration
  file: the parse (or the property access) throws, there is no \<^verbatim>\<open>projects\<close> object, or
  there is one, with its keys in enumeration order.
\<close>

datatype config = ParseError | NoProjects | Projects "jsstring list"

text \<open>
  The built-ins of the JavaScript host that the repository calls and does not define.
  They are parameters of the model: \<open>jsonProjects\<close> for the reading of the configuration
  described above, \<open>localeCompare\<close> for \<^verbatim>\<open>String.prototype.localeCompare\<close>, \<open>toLowerCase\<close>,
  \<open>btoa\<close> for \<^verbatim>\<open>btoa(String.fromCharCode(...bytes))\<close>, \<open>now\<close> for \<^verbatim>\<open>Date.now()\<close>, and the
  messages of the engine's own \<^verbatim>\<open>TypeError\<close> and \<^verbatim>\<open>URIError\<close>.

  The expression behind \<open>btoa\<close> spreads the buffer into one call argument per byte. An
  engine accepts only so many arguments and throws \<^verbatim>\<open>RangeError\<close> beyond that, so \<open>btoa\<close>
  returns the Base64 text or the value thrown; how long a buffer an engine accepts is
  left to the host.
\<close>

record Host =
  jsonProjects :: "jsstring \<Rightarrow> config"
  localeCompare :: "jsstring \<Rightarrow> jsstring \<Rightarrow> int"
  toLowerCase :: "jsstring \<Rightarrow> jsstring"
  btoa :: "byte list \<Rightarrow> thrown + jsstring"
  now :: nat
  typeErrorMessage :: jsstring
  uriErrorMessage :: jsstring

text \<open>\<^verbatim>\<open>!x\<close> on a string that may be undefined or null: true when absent or empty.\<close>

definition present :: "jsstring option \<Rightarrow> bool" where
  "present x = (case x of None \<Rightarrow> False | Some s \<Rightarrow> s \<noteq> [])"

section \<open>The project locator\<close>

definition getEncodedProjectName :: "Runtime \<Rightarrow> jsstring \<Rightarrow> fscall list \<times> jsstring option" where
  "getEncodedProjectName runtime projectPath =
     (case getHomeDir runtime of
        None \<Rightarrow> ([], None)
      | Some homeDir \<Rightarrow>
          if homeDir = [] then ([], None)
          else
            (let projectsDir = homeDir @ js ''/.claude/projects'' in
             case readDir runtime projectsDir of
               Inl e \<Rightarrow> ([ReadDir projectsDir], None)
             | Inr dirEntries \<Rightarrow>
                 (let entries = map name (filter isDirectory dirEntries);
                      expected = expectedEncoded projectPath
                  in ([ReadDir projectsDir],
                      if expected \<in> set entries then Some expected else None))))"

text \<open>The loop over \<^verbatim>\<open>Object.entries(config.projects)\<close>.\<close>

fun findProject :: "Runtime \<Rightarrow> jsstring \<Rightarrow> jsstring list \<Rightarrow> fscall list \<times> jsstring option" where
  "findProject runtime encodedName [] = ([], None)"
| "findProject runtime encodedName (projectPath # rest) =
     (case getEncodedProjectName runtime projectPath of
        (calls, encoded) \<Rightarrow>
          if encoded = Some encodedName then (calls, Some projectPath)
          else (case findProject runtime encodedName rest of
                  (calls', found) \<Rightarrow> (calls @ calls', found)))"

definition getProjectPathFromEncodedName ::
    "Host \<Rightarrow> Runtime \<Rightarrow> jsstring \<Rightarrow> fscall list \<times> jsstring option" where
  "getProjectPathFromEncodedName host runtime encodedName =
     (case getHomeDir runtime of
        None \<Rightarrow> ([], None)
      | Some homeDir \<Rightarrow>
          if homeDir = [] then ([], None)
          else
            (let claudeConfigPath = homeDir @ js ''/.claude.json'' in
             case readTextFile runtime claudeConfigPath of
               Inl e \<Rightarrow> ([ReadTextFile claudeConfigPath], None)
             | Inr configContent \<Rightarrow>
                 (case jsonProjects host configContent of
                    Projects projectPaths \<Rightarrow>
                      (case findProject runtime encodedName projectPaths of
                         (calls, found) \<Rightarrow> (ReadTextFile claudeConfigPath # calls, found))
                  | _ \<Rightarrow> ([ReadTextFile claudeConfigPath], None))))"

section \<open>File names and MIME types\<close>

text \<open>\<^verbatim>\<open>getFileExtension\<close>: what follows the last dot, in lower case; empty without a dot.\<close>

definition getFileExtension :: "Host \<Rightarrow> jsstring \<Rightarrow> jsstring" where
  "getFileExtension host filename =
     (if 0x2E \<notin> set filename then []
      else toLowerCase host (rev (takeWhile (\<lambda>c. c \<noteq> 0x2E) (rev filename))))"

definition mimeTypes :: "(string \<times> string) list" where
  "mimeTypes =
     [(''txt'', ''text/plain''), (''md'', ''text/markdown''), (''json'', ''application/json''),
      (''js'', ''application/javascript''), (''ts'', ''application/typescript''),
      (''jsx'', ''application/javascript''), (''tsx'', ''application/typescript''),
      (''html'', ''text/html''), (''css'', ''text/css''), (''xml'', ''application/xml''),
      (''yaml'', ''text/yaml''), (''yml'', ''text/yaml''), (''toml'', ''text/toml''),
      (''ini'', ''text/plain''), (''log'', ''text/plain''),
      (''jpg'', ''image/jpeg''), (''jpeg'', ''image/jpeg''), (''png'', ''image/png''),
      (''gif'', ''image/gif''), (''bmp'', ''image/bmp''), (''svg'', ''image/svg+xml''),
      (''webp'', ''image/webp''), (''ico'', ''image/x-icon''),
      (''pdf'', ''application/pdf''), (''doc'', ''application/msword''),
      (''docx'', ''application/vnd.openxmlformats-officedocument.wordprocessingml.document''),
      (''zip'', ''application/zip''), (''tar'', ''application/x-tar''),
      (''gz'', ''application/gzip''),
      (''mp3'', ''audio/mpeg''), (''mp4'', ''video/mp4''), (''avi'', ''video/x-msvideo''),
      (''mov'', ''video/quicktime'')]"

text \<open>
  \<^verbatim>\<open>getMimeType\<close> is \<^verbatim>\<open>mimeTypes[extension] || "application/octet-stream"\<close> on an object
  literal. A key the literal does not have is looked up on \<^verbatim>\<open>Object.prototype\<close>; of its
  property names only \<^verbatim>\<open>constructor\<close> and \<^verbatim>\<open>__proto__\<close> are in lower case, as every
  extension is, and both hold a truthy value that is not a string.
\<close>

datatype mime = Mime jsstring | Inherited

definition getMimeType :: "jsstring \<Rightarrow> mime" where
  "getMimeType extension =
     (case map_of (map (\<lambda>(k, v). (js k, js v)) mimeTypes) extension of
        Some m \<Rightarrow> Mime m
      | None \<Rightarrow>
          if extension = js ''constructor'' \<or> extension = js ''__proto__'' then Inherited
          else Mime (js ''application/octet-stream''))"

definition isTextFile :: "jsstring \<Rightarrow> bool" where
  "isTextFile mimeType =
     (startsWith mimeType (js ''text/'') \<or> mimeType = js ''application/json''
      \<or> mimeType = js ''application/javascript'' \<or> mimeType = js ''application/typescript''
      \<or> mimeType = js ''application/xml'')"

definition isImageFile :: "jsstring \<Rightarrow> bool" where
  "isImageFile mimeType = startsWith mimeType (js ''image/'')"

section \<open>Responses\<close>

datatype FileType = Directory | File

text \<open>
  \<open>fi_modifiedTime\<close> holds the time stamp whose ISO-8601 rendering is sent; an absent field
  is \<open>None\<close>.
\<close>

record FileInfo =
  fi_name :: jsstring
  fi_path :: jsstring
  fi_type :: FileType
  fi_size :: "nat option"
  fi_modifiedTime :: "nat option"
  fi_extension :: "jsstring option"

datatype Encoding = Utf8 | Base64

record Headers =
  contentType :: mime
  contentDisposition :: jsstring
  contentLength :: jsstring

datatype Body =
    ErrorBody jsstring
  | FilesListResponse "FileInfo list" jsstring
  | FileContentResponse jsstring jsstring Encoding nat
  | UploadResponse bool "jsstring option" "jsstring option"
  | Download "byte list" Headers

text \<open>A response is a status code and a body; a handler returns its calls and its response.\<close>

type_synonym Response = "nat \<times> Body"
type_synonym Outcome = "fscall list \<times> Response"

section \<open>Listing (handleFilesList)\<close>

definition fileInfo :: "Host \<Rightarrow> Runtime \<Rightarrow> jsstring \<Rightarrow> jsstring \<Rightarrow> DirectoryEntry \<Rightarrow> FileInfo" where
  "fileInfo host runtime targetPath pathParam entry =
     (let fullPath = targetPath @ js ''/'' @ name entry;
          relativePath = (if pathParam \<noteq> [] then pathParam @ js ''/'' @ name entry else name entry)
      in case stat runtime fullPath of
           Inr st \<Rightarrow>
             \<lparr> fi_name = name entry, fi_path = relativePath,
               fi_type = (if isDirectory entry then Directory else File),
               fi_size = (if isFile entry then Some (st_size st) else None),
               fi_modifiedTime = st_mtime st,
               fi_extension = (if isFile entry then Some (getFileExtension host (name entry)) else None) \<rparr>
         | Inl e \<Rightarrow>
             \<lparr> fi_name = name entry, fi_path = relativePath,
               fi_type = (if isDirectory entry then Directory else File),
               fi_size = None, fi_modifiedTime = None, fi_extension = None \<rparr>)"

text \<open>The comparator given to \<^verbatim>\<open>files.sort\<close>.\<close>

definition compareFiles :: "Host \<Rightarrow> FileInfo \<Rightarrow> FileInfo \<Rightarrow> int" where
  "compareFiles host a b =
     (if fi_type a \<noteq> fi_type b then (if fi_type a = Directory then - 1 else 1)
      else localeCompare host (fi_name a) (fi_name b))"

text \<open>
  \<^verbatim>\<open>Array.prototype.sort\<close> with a comparator is a stable sort (ECMAScript 2019); with a
  consistent comparator its result is the one of the stable insertion sort below.
\<close>

fun insert_by :: "('a \<Rightarrow> 'a \<Rightarrow> int) \<Rightarrow> 'a \<Rightarrow> 'a list \<Rightarrow> 'a list" where
  "insert_by cmp x [] = [x]"
| "insert_by cmp x (y # ys) = (if cmp x y \<le> 0 then x # y # ys else y # insert_by cmp x ys)"

definition sort_by :: "('a \<Rightarrow> 'a \<Rightarrow> int) \<Rightarrow> 'a list \<Rightarrow> 'a list" where
  "sort_by cmp xs = foldr (insert_by cmp) xs []"

definition handleFilesList ::
    "Host \<Rightarrow> Runtime \<Rightarrow> jsstring option \<Rightarrow> jsstring option \<Rightarrow> Outcome" where
  "handleFilesList host runtime encodedProjectName pathQuery =
     (case encodedProjectName of
        None \<Rightarrow> ([], 400, ErrorBody (js ''Project name is required''))
      | Some encodedName \<Rightarrow>
          if encodedName = [] then ([], 400, ErrorBody (js ''Project name is required''))
          else
            (case getProjectPathFromEncodedName host runtime encodedName of
               (lookup, projectPath) \<Rightarrow>
                 if \<not> present projectPath then (lookup, 404, ErrorBody (js ''Project not found''))
                 else
                   (let rootPath = the projectPath;
                        pathParam = (case pathQuery of None \<Rightarrow> [] | Some q \<Rightarrow> q)
                    in if traversal pathParam
                       then (lookup, 403, ErrorBody (js ''Access denied: Invalid path''))
                       else
                         (let targetPath =
                                (if pathParam \<noteq> [] then safeResolvePath rootPath pathParam
                                 else rootPath)
                          in if \<not> exists runtime targetPath
                             then (lookup @ [Exists targetPath],
                                   200, FilesListResponse [] pathParam)
                             else
                               (case readDir runtime targetPath of
                                  Inl e \<Rightarrow>
                                    (lookup @ [Exists targetPath, ReadDir targetPath],
                                     500, ErrorBody (errorMessage e (js ''Failed to list files'')))
                                | Inr entries \<Rightarrow>
                                    (let files = map (fileInfo host runtime targetPath pathParam) entries
                                     in (lookup @ [Exists targetPath, ReadDir targetPath]
                                           @ map (\<lambda>entry. Stat (targetPath @ js ''/'' @ name entry)) entries,
                                         200,
                                         FilesListResponse (sort_by (compareFiles host) files) pathParam)))))))"

section \<open>Preview (handleFileContent)\<close>

definition maxSize :: nat where
  "maxSize = 10 * 1024 * 1024"

definition handleFileContent ::
    "Host \<Rightarrow> Runtime \<Rightarrow> jsstring option \<Rightarrow> jsstring option \<Rightarrow> Outcome" where
  "handleFileContent host runtime encodedProjectName pathParam =
     (if \<not> present encodedProjectName \<or> \<not> present pathParam
      then ([], 400, ErrorBody (js ''Project name and file path are required''))
      else
        (case getProjectPathFromEncodedName host runtime (the encodedProjectName) of
           (lookup, projectPath) \<Rightarrow>
             if \<not> present projectPath then (lookup, 404, ErrorBody (js ''Project not found''))
             else
               (let filePath = the pathParam in
                if traversal filePath
                then (lookup, 403, ErrorBody (js ''Access denied: Invalid file path''))
                else
                  (let fullPath = safeResolvePath (the projectPath) filePath in
                   if \<not> exists runtime fullPath
                   then (lookup @ [Exists fullPath], 404, ErrorBody (js ''File not found''))
                   else
                     (case stat runtime fullPath of
                        Inl e \<Rightarrow>
                          (lookup @ [Exists fullPath, Stat fullPath],
                           500, ErrorBody (errorMessage e (js ''Failed to read file'')))
                      | Inr st \<Rightarrow>
                          if st_isDirectory st
                          then (lookup @ [Exists fullPath, Stat fullPath],
                                400, ErrorBody (js ''Cannot read directory content''))
                          else if st_size st > maxSize
                          then (lookup @ [Exists fullPath, Stat fullPath],
                                413, ErrorBody (js ''File too large to preview''))
                          else
                            (case getMimeType (getFileExtension host filePath) of
                               Inherited \<Rightarrow>
                                 (lookup @ [Exists fullPath, Stat fullPath],
                                  500, ErrorBody (typeErrorMessage host))
                             | Mime mimeType \<Rightarrow>
                                 if isTextFile mimeType
                                 then
                                   (case readTextFile runtime fullPath of
                                      Inl e \<Rightarrow>
                                        (lookup @ [Exists fullPath, Stat fullPath, ReadTextFile fullPath],
                                         500, ErrorBody (errorMessage e (js ''Failed to read file'')))
                                    | Inr content \<Rightarrow>
                                        (lookup @ [Exists fullPath, Stat fullPath, ReadTextFile fullPath],
                                         200, FileContentResponse content mimeType Utf8 (st_size st)))
                                 else if isImageFile mimeType \<or> st_size st \<le> 1024 * 1024
                                 then
                                   (case readBinaryFile runtime fullPath of
                                      Inl e \<Rightarrow>
                                        (lookup @ [Exists fullPath, Stat fullPath, ReadBinaryFile fullPath],
                                         500, ErrorBody (errorMessage e (js ''Failed to read file'')))
                                    | Inr buffer \<Rightarrow>
                                        (case btoa host buffer of
                                           Inl e \<Rightarrow>
                                             (lookup @ [Exists fullPath, Stat fullPath, ReadBinaryFile fullPath],
                                              500, ErrorBody (errorMessage e (js ''Failed to read file'')))
                                         | Inr content \<Rightarrow>
                                             (lookup @ [Exists fullPath, Stat fullPath, ReadBinaryFile fullPath],
                                              200,
                                              FileContentResponse content mimeType Base64 (st_size st))))
                                 else (lookup @ [Exists fullPath, Stat fullPath],
                                       415, ErrorBody (js ''File type not supported for preview''))))))))"

section \<open>Download (handleFileDownload)\<close>

text \<open>
  \<^verbatim>\<open>encodeURIComponent\<close>, as ECMAScript defines it: the unreserved characters stay, every
  other code point is written as the percent-escaped bytes of its UTF-8 encoding, and a
  surrogate without its partner raises \<^verbatim>\<open>URIError\<close> (\<open>None\<close> here).
\<close>

definition uriUnreserved :: "jschar \<Rightarrow> bool" where
  "uriUnreserved c =
     ((0x41 \<le> c \<and> c \<le> 0x5A) \<or> (0x61 \<le> c \<and> c \<le> 0x7A) \<or> (0x30 \<le> c \<and> c \<le> 0x39)
      \<or> c \<in> {0x2D, 0x5F, 0x2E, 0x21, 0x7E, 0x2A, 0x27, 0x28, 0x29})"

definition hexDigit :: "nat \<Rightarrow> jschar" where
  "hexDigit d = (if d < 10 then of_nat (48 + d) else of_nat (55 + d))"

definition percent :: "nat \<Rightarrow> jsstring" where
  "percent b = [0x25, hexDigit (b div 16), hexDigit (b mod 16)]"

definition utf8 :: "nat \<Rightarrow> nat list" where
  "utf8 cp =
     (if cp < 0x80 then [cp]
      else if cp < 0x800 then [0xC0 + cp div 64, 0x80 + cp mod 64]
      else if cp < 0x10000 then [0xE0 + cp div 4096, 0x80 + cp div 64 mod 64, 0x80 + cp mod 64]
      else [0xF0 + cp div 262144, 0x80 + cp div 4096 mod 64, 0x80 + cp div 64 mod 64,
            0x80 + cp mod 64])"

definition leadSurrogate :: "jschar \<Rightarrow> bool" where
  "leadSurrogate c = (0xD800 \<le> c \<and> c \<le> 0xDBFF)"

definition trailSurrogate :: "jschar \<Rightarrow> bool" where
  "trailSurrogate c = (0xDC00 \<le> c \<and> c \<le> 0xDFFF)"

definition codePoint :: "jschar \<Rightarrow> jschar \<Rightarrow> nat" where
  "codePoint lead trail = (unat lead - 0xD800) * 1024 + (unat trail - 0xDC00) + 0x10000"

definition escapeCodePoint :: "nat \<Rightarrow> jsstring" where
  "escapeCodePoint cp = concat (map percent (utf8 cp))"

fun encodeURIComponent :: "jsstring \<Rightarrow> jsstring option" where
  "encodeURIComponent [] = Some []"
| "encodeURIComponent (c # cs) =
     (if uriUnreserved c then map_option (\<lambda>r. c # r) (encodeURIComponent cs)
      else if trailSurrogate c then None
      else if leadSurrogate c then
        (case cs of
           [] \<Rightarrow> None
         | d # ds \<Rightarrow>
             if trailSurrogate d
             then map_option (\<lambda>r. escapeCodePoint (codePoint c d) @ r) (encodeURIComponent ds)
             else None)
      else map_option (\<lambda>r. escapeCodePoint (unat c) @ r) (encodeURIComponent cs))"

text \<open>The test \<^verbatim>\<open>/[^\x20-\x7E]/\<close> behind \<^verbatim>\<open>hasNonAscii\<close>, on one code unit.\<close>

definition nonAscii :: "jschar \<Rightarrow> bool" where
  "nonAscii c = (c < 0x20 \<or> 0x7E < c)"

definition quoteOrBackslash :: "jschar \<Rightarrow> bool" where
  "quoteOrBackslash c = (c = 0x22 \<or> c = 0x5C)"

text \<open>
  The header value built at the end of \<^verbatim>\<open>handleFileDownload\<close>: \<open>asciiFilename\<close> and
  \<open>safeFilename\<close> are the two \<^verbatim>\<open>replace\<close> chains of the source. The code unit \<open>0x22\<close> is
  the double quote, \<open>0x27\<close> the single quote, \<open>0x5C\<close> the backslash and \<open>0x5F\<close> the
  underscore.
\<close>

definition asciiFilename :: "jsstring \<Rightarrow> jsstring" where
  "asciiFilename filename =
     map (\<lambda>c. if quoteOrBackslash c then 0x5F else c)
       (map (\<lambda>c. if nonAscii c then 0x5F else c) filename)"

definition safeFilename :: "jsstring \<Rightarrow> jsstring" where
  "safeFilename filename =
     concat (map (\<lambda>c. if quoteOrBackslash c then [0x5C, c] else [c]) filename)"

definition buildContentDisposition :: "Host \<Rightarrow> jsstring \<Rightarrow> thrown + jsstring" where
  "buildContentDisposition host filename =
     (let hasNonAscii = list_ex nonAscii filename in
      if hasNonAscii then
        (case encodeURIComponent filename of
           None \<Rightarrow> Inl (Error (uriErrorMessage host))
         | Some utf8Filename \<Rightarrow>
             Inr (js ''attachment; filename='' @ [0x22] @ asciiFilename filename @ [0x22]
                  @ js ''; filename*=UTF-8'' @ [0x27, 0x27] @ utf8Filename))
      else Inr (js ''attachment; filename='' @ [0x22] @ safeFilename filename @ [0x22]))"

text \<open>\<^verbatim>\<open>pathParam.endsWith\<close> on the suffix \<^verbatim>\<open>/download\<close> and \<^verbatim>\<open>pathParam.slice(0, -9)\<close>.\<close>

definition stripDownload :: "jsstring \<Rightarrow> jsstring" where
  "stripDownload pathParam =
     (if endsWith pathParam (js ''/download'') then take (length pathParam - 9) pathParam
      else pathParam)"

text \<open>\<^verbatim>\<open>filePath.split("/").pop() || "download"\<close>.\<close>

definition downloadName :: "jsstring \<Rightarrow> jsstring" where
  "downloadName filePath =
     (let lastPart = last (split filePath 0x2F) in
      if lastPart = [] then js ''download'' else lastPart)"

definition handleFileDownload ::
    "Host \<Rightarrow> Runtime \<Rightarrow> jsstring option \<Rightarrow> jsstring option \<Rightarrow> Outcome" where
  "handleFileDownload host runtime encodedProjectName pathParam =
     (if \<not> present encodedProjectName \<or> \<not> present pathParam
      then ([], 400, ErrorBody (js ''Project name and file path are required''))
      else
        (let filePath = stripDownload (the pathParam) in
         case getProjectPathFromEncodedName host runtime (the encodedProjectName) of
           (lookup, projectPath) \<Rightarrow>
             if \<not> present projectPath then (lookup, 404, ErrorBody (js ''Project not found''))
             else if traversal filePath
             then (lookup, 403, ErrorBody (js ''Access denied: Invalid file path''))
             else
               (let fullPath = safeResolvePath (the projectPath) filePath in
                if \<not> exists runtime fullPath
                then (lookup @ [Exists fullPath], 404, ErrorBody (js ''File not found''))
                else
                  (case stat runtime fullPath of
                     Inl e \<Rightarrow>
                       (lookup @ [Exists fullPath, Stat fullPath],
                        500, ErrorBody (errorMessage e (js ''Failed to download file'')))
                   | Inr st \<Rightarrow>
                       if st_isDirectory st
                       then (lookup @ [Exists fullPath, Stat fullPath],
                             400, ErrorBody (js ''Cannot download directory''))
                       else
                         (case readBinaryFile runtime fullPath of
                            Inl e \<Rightarrow>
                              (lookup @ [Exists fullPath, Stat fullPath, ReadBinaryFile fullPath],
                               500, ErrorBody (errorMessage e (js ''Failed to download file'')))
                          | Inr buffer \<Rightarrow>
                              (let filename = downloadName filePath;
                                   mimeType = getMimeType (getFileExtension host filename)
                               in case buildContentDisposition host filename of
                                    Inl e \<Rightarrow>
                                      (lookup @ [Exists fullPath, Stat fullPath, ReadBinaryFile fullPath],
                                       500, ErrorBody (errorMessage e (js ''Failed to download file'')))
                                  | Inr disposition \<Rightarrow>
                                      (lookup @ [Exists fullPath, Stat fullPath, ReadBinaryFile fullPath],
                                       200,
                                       Download buffer
                                         \<lparr> contentType = mimeType,
                                           contentDisposition = disposition,
                                           contentLength = decimal (length buffer) \<rparr>)))))))"

section \<open>Upload (handleUpload)\<close>

record UploadedFile =
  uf_name :: jsstring
  uf_content :: "byte list"

text \<open>\<^verbatim>\<open>file.name.replace(/[^a-zA-Z0-9.-]/g, "_")\<close>.\<close>

definition safeNameChar :: "jschar \<Rightarrow> bool" where
  "safeNameChar c =
     ((0x61 \<le> c \<and> c \<le> 0x7A) \<or> (0x41 \<le> c \<and> c \<le> 0x5A) \<or> (0x30 \<le> c \<and> c \<le> 0x39)
      \<or> c = 0x2E \<or> c = 0x2D)"

definition safeFileName :: "jsstring \<Rightarrow> jsstring" where
  "safeFileName fileName = map (\<lambda>c. if safeNameChar c then c else 0x5F) fileName"

definition handleUpload ::
    "Host \<Rightarrow> Runtime \<Rightarrow> UploadedFile option \<Rightarrow> jsstring option \<Rightarrow> jsstring option \<Rightarrow> Outcome" where
  "handleUpload host runtime file sessionId workingDirectory =
     (case file of
        None \<Rightarrow> ([], 400, UploadResponse False None (Some (js ''No file provided'')))
      | Some f \<Rightarrow>
          if \<not> present sessionId
          then ([], 400, UploadResponse False None (Some (js ''No session ID provided'')))
          else
            (let baseDir = (if present workingDirectory then the workingDirectory
                            else getCurrentWorkingDirectory runtime);
                 tempDir = baseDir @ js ''/.claude-temp'';
                 sessionDir = tempDir @ js ''/'' @ the sessionId;
                 timestamp = now host;
                 fileName = decimal timestamp @ js ''_'' @ safeFileName (uf_name f);
                 filePath = sessionDir @ js ''/'' @ fileName;
                 calls = [Mkdir tempDir, Mkdir sessionDir, WriteBinaryFile filePath (uf_content f)]
             in case writeBinaryFile runtime filePath (uf_content f) of
                  Inl e \<Rightarrow>
                    (calls, 500, UploadResponse False None (Some (errorMessage e (js ''Unknown error''))))
                | Inr u \<Rightarrow>
                    (let relativePath =
                           (if startsWith filePath (baseDir @ js ''/'')
                            then drop (length baseDir + 1) filePath else filePath)
                     in (calls, 200, UploadResponse True (Some relativePath) None))))"

section \<open>Notions used to state the properties\<close>

text \<open>
  The names of the directories listed under \<^verbatim>\<open><home>/.claude/projects\<close>; none when the
  listing fails.
\<close>

definition historyDirs :: "Runtime \<Rightarrow> jsstring \<Rightarrow> jsstring list" where
  "historyDirs runtime homeDir =
     (case readDir runtime (homeDir @ js ''/.claude/projects'') of
        Inl e \<Rightarrow> []
      | Inr dirEntries \<Rightarrow> map name (filter isDirectory dirEntries))"

text \<open>
  The registry: the home directory and the project paths of \<^verbatim>\<open><home>/.claude.json\<close>. It is
  unavailable without a home directory, when the file cannot be read or parsed, and when
  it has no \<^verbatim>\<open>projects\<close> object.
\<close>

definition registry :: "Host \<Rightarrow> Runtime \<Rightarrow> (jsstring \<times> jsstring list) option" where
  "registry host runtime =
     (case getHomeDir runtime of
        None \<Rightarrow> None
      | Some homeDir \<Rightarrow>
          if homeDir = [] then None
          else
            (case readTextFile runtime (homeDir @ js ''/.claude.json'') of
               Inl e \<Rightarrow> None
             | Inr configContent \<Rightarrow>
                 (case jsonProjects host configContent of
                    Projects projectPaths \<Rightarrow> Some (homeDir, projectPaths)
                  | _ \<Rightarrow> None)))"

text \<open>
  The decision order of the content classifier as the specification lists it (size above
  the 10 MiB ceiling, then text, then image or at most 1 MiB, then unsupported).
\<close>

datatype preview = AsText | AsBase64 | RejectUnsupported | RejectTooLarge

definition classify :: "jsstring \<Rightarrow> nat \<Rightarrow> preview" where
  "classify mimeType fileSize =
     (if fileSize > 10485760 then RejectTooLarge
      else if isTextFile mimeType then AsText
      else if isImageFile mimeType \<or> fileSize \<le> 1048576 then AsBase64
      else RejectUnsupported)"

text \<open>A string is well formed when every surrogate code unit is half of a pair.\<close>

fun wellFormed :: "jsstring \<Rightarrow> bool" where
  "wellFormed [] = True"
| "wellFormed [c] = (\<not> leadSurrogate c \<and> \<not> trailSurrogate c)"
| "wellFormed (c # d # ds) =
     (if leadSurrogate c then trailSurrogate d \<and> wellFormed ds
      else \<not> trailSurrogate c \<and> wellFormed (d # ds))"

text \<open>The order of a listing: directories first, names ascending within a group.\<close>

definition listedBefore :: "Host \<Rightarrow> FileInfo \<Rightarrow> FileInfo \<Rightarrow> bool" where
  "listedBefore host a b =
     (if fi_type a = fi_type b then localeCompare host (fi_name a) (fi_name b) \<le> 0
      else fi_type a = Directory)"

text \<open>
  The directory an upload is staged under, and the staged path relative to it:
  \<^verbatim>\<open>.claude-temp/<sessionId>/<unixMillis>_<sanitized name>\<close>.
\<close>

definition baseDirOf :: "Runtime \<Rightarrow> jsstring option \<Rightarrow> jsstring" where
  "baseDirOf runtime workingDirectory =
     (case workingDirectory of
        None \<Rightarrow> getCurrentWorkingDirectory runtime
      | Some w \<Rightarrow> if w = [] then getCurrentWorkingDirectory runtime else w)"

definition stagedName :: "Host \<Rightarrow> jsstring \<Rightarrow> UploadedFile \<Rightarrow> jsstring" where
  "stagedName host sessionId f =
     js ''.claude-temp/'' @ sessionId @ js ''/'' @ decimal (now host) @ js ''_''
       @ map (\<lambda>c. if safeNameChar c then c else 0x5F) (uf_name f)"

section \<open>An example installation\<close>

text \<open>
  A host and a file system to evaluate the handlers on. The home directory is \<^verbatim>\<open>/h\<close>; the
  registry names the projects \<^verbatim>\<open>/a\<close>, \<^verbatim>\<open>/p\<close>, \<^verbatim>\<open>/p/\<close> and \<^verbatim>\<open>/w?x\<close>, of which \<^verbatim>\<open>/p\<close> and
  \<^verbatim>\<open>/w?x\<close> have a history directory. The project \<^verbatim>\<open>/p\<close> holds two directories and four
  files, and its directory \<^verbatim>\<open>docs\<close> one file of three bytes. The example host compares and
  lower-cases strings by code unit, encodes in Base64 as \<^verbatim>\<open>btoa\<close> does, and accepts at most
  125000 spread arguments, which is the order of magnitude of today's engines.
\<close>

definition b64char :: "nat \<Rightarrow> jschar" where
  "b64char n =
     (if n < 26 then of_nat (65 + n)
      else if n < 52 then of_nat (71 + n)
      else if n < 62 then of_nat (n - 4)
      else if n = 62 then 0x2B else 0x2F)"

fun base64 :: "byte list \<Rightarrow> jsstring" where
  "base64 [] = []"
| "base64 [a] = [b64char (unat a div 4), b64char (unat a mod 4 * 16), 0x3D, 0x3D]"
| "base64 [a, b] =
     [b64char (unat a div 4), b64char (unat a mod 4 * 16 + unat b div 16),
      b64char (unat b mod 16 * 4), 0x3D]"
| "base64 (a # b # c # rest) =
     [b64char (unat a div 4), b64char (unat a mod 4 * 16 + unat b div 16),
      b64char (unat b mod 16 * 4 + unat c div 64), b64char (unat c mod 64)] @ base64 rest"

definition zeros :: "nat \<Rightarrow> byte list" where
  "zeros n = replicate n 0"

fun compareUnits :: "jsstring \<Rightarrow> jsstring \<Rightarrow> int" where
  "compareUnits [] [] = 0"
| "compareUnits [] (y # ys) = - 1"
| "compareUnits (x # xs) [] = 1"
| "compareUnits (x # xs) (y # ys) =
     (if x < y then - 1 else if y < x then 1 else compareUnits xs ys)"

definition lowerAscii :: "jsstring \<Rightarrow> jsstring" where
  "lowerAscii s = map (\<lambda>c. if 0x41 \<le> c \<and> c \<le> 0x5A then c + 0x20 else c) s"

definition host0 :: Host where
  "host0 =
     \<lparr> jsonProjects =
         (\<lambda>content. if content = js ''cfg''
                     then Projects [js ''/a'', js ''/p'', js ''/p/'', js ''/w?x'']
                     else ParseError),
       localeCompare = compareUnits,
       toLowerCase = lowerAscii,
       btoa =
         (\<lambda>bytes. if 125000 < length bytes
                   then Inl (Error (js ''Maximum call stack size exceeded''))
                   else Inr (base64 bytes)),
       now = 1700000000000,
       typeErrorMessage = js ''mimeType.startsWith is not a function'',
       uriErrorMessage = js ''URI malformed'' \<rparr>"

definition dirEntry :: "string \<Rightarrow> DirectoryEntry" where
  "dirEntry n = \<lparr> name = js n, isFile = False, isDirectory = True \<rparr>"

definition fileEntry :: "string \<Rightarrow> DirectoryEntry" where
  "fileEntry n = \<lparr> name = js n, isFile = True, isDirectory = False \<rparr>"

definition enoent :: thrown where
  "enoent = Error (js ''ENOENT'')"

definition stat0 :: "jsstring \<Rightarrow> thrown + FileStats" where
  "stat0 path =
     (if path = js ''/p/src'' \<or> path = js ''/p/docs'' \<or> path = js ''/p''
      then Inr \<lparr> st_isDirectory = True, st_size = 4096, st_mtime = Some 1 \<rparr>
      else if path = js ''/p/b.txt''
      then Inr \<lparr> st_isDirectory = False, st_size = 10, st_mtime = Some 2 \<rparr>
      else if path = js ''/p/a.txt''
      then Inr \<lparr> st_isDirectory = False, st_size = 10485760, st_mtime = Some 3 \<rparr>
      else if path = js ''/p/one.bin''
      then Inr \<lparr> st_isDirectory = False, st_size = 1048576, st_mtime = Some 4 \<rparr>
      else if path = js ''/p/big.bin''
      then Inr \<lparr> st_isDirectory = False, st_size = 10485761, st_mtime = None \<rparr>
      else if path = js ''/p/docs/tiny.bin''
      then Inr \<lparr> st_isDirectory = False, st_size = 3, st_mtime = Some 5 \<rparr>
      else Inl enoent)"

definition runtime0 :: Runtime where
  "runtime0 =
     \<lparr> getHomeDir = Some (js ''/h''),
       getCurrentWorkingDirectory = js ''/cwd'',
       readTextFile =
         (\<lambda>path. if path = js ''/h/.claude.json'' then Inr (js ''cfg'')
                  else if path = js ''/p/a.txt'' \<or> path = js ''/p/b.txt'' then Inr (js ''text'')
                  else Inl enoent),
       readBinaryFile =
         (\<lambda>path. if path = js ''/p/docs/tiny.bin'' then Inr [1, 2, 3]
                  else if path = js ''/p/one.bin'' then Inr (zeros 1048576)
                  else if path = js ''/p/big.bin'' then Inr (zeros 10485761)
                  else if path = js ''/p/b.txt'' then Inr (zeros 10)
                  else Inl enoent),
       readDir =
         (\<lambda>path. if path = js ''/h/.claude/projects''
                  then Inr [dirEntry ''-p'', dirEntry ''-w?x'', fileEntry ''-a'']
                  else if path = js ''/p''
                  then Inr [fileEntry ''b.txt'', dirEntry ''src'', fileEntry ''a.txt'',
                            dirEntry ''docs'', fileEntry ''one.bin'', fileEntry ''big.bin'']
                  else if path = js ''/p/docs'' then Inr [fileEntry ''tiny.bin'']
                  else if path = js ''/p/src'' then Inr []
                  else Inl enoent),
       exists =
         (\<lambda>path. path \<in> set (map js [''/p'', ''/p/src'', ''/p/docs'', ''/p/b.txt'', ''/p/a.txt'',
                                         ''/p/one.bin'', ''/p/big.bin'', ''/p/docs/tiny.bin''])),
       stat = stat0,
       mkdir = (\<lambda>path. Inr ()),
       writeBinaryFile = (\<lambda>path content. Inr ()) \<rparr>"

text \<open>The listing of the project \<^verbatim>\<open>/p\<close>, and a file to upload.\<close>

definition files0 :: "FileInfo list" where
  "files0 =
     [\<lparr> fi_name = js ''docs'', fi_path = js ''docs'', fi_type = Directory, fi_size = None,
        fi_modifiedTime = Some 1, fi_extension = None \<rparr>,
      \<lparr> fi_name = js ''src'', fi_path = js ''src'', fi_type = Directory, fi_size = None,
        fi_modifiedTime = Some 1, fi_extension = None \<rparr>,
      \<lparr> fi_name = js ''a.txt'', fi_path = js ''a.txt'', fi_type = File, fi_size = Some 10485760,
        fi_modifiedTime = Some 3, fi_extension = Some (js ''txt'') \<rparr>,
      \<lparr> fi_name = js ''b.txt'', fi_path = js ''b.txt'', fi_type = File, fi_size = Some 10,
        fi_modifiedTime = Some 2, fi_extension = Some (js ''txt'') \<rparr>,
      \<lparr> fi_name = js ''big.bin'', fi_path = js ''big.bin'', fi_type = File,
        fi_size = Some 10485761, fi_modifiedTime = None, fi_extension = Some (js ''bin'') \<rparr>,
      \<lparr> fi_name = js ''one.bin'', fi_path = js ''one.bin'', fi_type = File,
        fi_size = Some 1048576, fi_modifiedTime = Some 4, fi_extension = Some (js ''bin'') \<rparr>]"

definition upload0 :: UploadedFile where
  "upload0 = \<lparr> uf_name = js ''my file(1).txt'', uf_content = [1, 2] \<rparr>"

text \<open>The file name \<^verbatim>\<open>r\<close>, U+00E9, \<^verbatim>\<open>sum\<close>, U+00E9, \<^verbatim>\<open>.pdf\<close>.\<close>

definition resume :: jsstring where
  "resume = [0x72, 0xE9, 0x73, 0x75, 0x6D, 0xE9, 0x2E, 0x70, 0x64, 0x66]"

section \<open>Properties\<close>

lemmas example_defs = host0_def runtime0_def stat0_def dirEntry_def fileEntry_def enoent_def
  js_def lowerAscii_def

lemmas locator_defs = getProjectPathFromEncodedName_def getEncodedProjectName_def
  expectedEncoded_def hyphenate_def stripTrailingSlash_def

lemmas path_defs = present_def traversal_def startsWith_def safeResolvePath_def keepPart_def
  Let_def

lemma registry0:
  "registry host0 runtime0 = Some (js ''/h'', [js ''/a'', js ''/p'', js ''/p/'', js ''/w?x''])"
  by (simp add: registry_def example_defs)

subsection \<open>The project locator\<close>

lemma endsWith_single: "endsWith p [c] \<longleftrightarrow> p \<noteq> [] \<and> last p = c"
  by (cases p rule: rev_cases) (auto simp: endsWith_def)

lemma js_slash: "js ''/'' = [0x2F]"
  by (simp add: js_def)

lemma stripTrailingSlash_append: "stripTrailingSlash (p @ js ''/'') = p"
  by (simp add: stripTrailingSlash_def js_slash)

lemma stripTrailingSlash_id: "\<not> endsWith p (js ''/'') \<Longrightarrow> stripTrailingSlash p = p"
  by (auto simp: stripTrailingSlash_def js_slash endsWith_single)

lemma getEncodedProjectName_snd:
  assumes "getHomeDir rt = Some home" "home \<noteq> []"
  shows "snd (getEncodedProjectName rt p) =
         (if expectedEncoded p \<in> set (historyDirs rt home) then Some (expectedEncoded p) else None)"
  using assms by (simp add: getEncodedProjectName_def historyDirs_def Let_def split: sum.splits)

lemma getEncodedProjectName_fst:
  assumes "getHomeDir rt = Some home" "home \<noteq> []"
  shows "fst (getEncodedProjectName rt p) = [ReadDir (home @ js ''/.claude/projects'')]"
  using assms by (simp add: getEncodedProjectName_def Let_def split: sum.splits)

lemma findProject_snd:
  assumes "getHomeDir rt = Some home" "home \<noteq> []"
  shows "snd (findProject rt n ps) =
         (if n \<in> set (historyDirs rt home) then find (\<lambda>p. expectedEncoded p = n) ps else None)"
proof (induction ps)
  case Nil
  show ?case by simp
next
  case (Cons p ps)
  obtain calls enc where e: "getEncodedProjectName rt p = (calls, enc)"
    by (cases "getEncodedProjectName rt p")
  have enc: "enc = (if expectedEncoded p \<in> set (historyDirs rt home) then Some (expectedEncoded p) else None)"
    using getEncodedProjectName_snd [OF assms, of p] e by simp
  show ?case
    using Cons.IH by (auto simp: e enc split: prod.splits)
qed

lemma findProject_fst:
  assumes "getHomeDir rt = Some home" "home \<noteq> []"
  shows "set (fst (findProject rt n ps)) \<subseteq> {ReadDir (home @ js ''/.claude/projects'')}"
proof (induction ps)
  case Nil
  show ?case by simp
next
  case (Cons p ps)
  obtain calls enc where e: "getEncodedProjectName rt p = (calls, enc)"
    by (cases "getEncodedProjectName rt p")
  have c: "calls = [ReadDir (home @ js ''/.claude/projects'')]"
    using getEncodedProjectName_fst [OF assms, of p] e by simp
  show ?case
    using Cons.IH by (auto simp: e c split: prod.splits)
qed

lemma lookup_calls:
  assumes "getHomeDir rt = Some home"
  shows "set (fst (getProjectPathFromEncodedName host rt n))
         \<subseteq> {ReadTextFile (home @ js ''/.claude.json''), ReadDir (home @ js ''/.claude/projects'')}"
proof (cases "home = []")
  case True
  then show ?thesis using assms by (simp add: getProjectPathFromEncodedName_def)
next
  case False
  show ?thesis
  proof (cases "readTextFile rt (home @ js ''/.claude.json'')")
    case (Inl e)
    then show ?thesis
      using assms False by (simp add: getProjectPathFromEncodedName_def Let_def)
  next
    case (Inr content)
    show ?thesis
    proof (cases "jsonProjects host content")
      case (Projects ps)
      obtain calls found where f: "findProject rt n ps = (calls, found)"
        by (cases "findProject rt n ps")
      have "set calls \<subseteq> {ReadDir (home @ js ''/.claude/projects'')}"
        using findProject_fst [OF assms False, of n ps] f by simp
      then show ?thesis
        using assms False Inr Projects f
        by (auto simp: getProjectPathFromEncodedName_def Let_def)
    qed (use assms False Inr in \<open>simp_all add: getProjectPathFromEncodedName_def Let_def\<close>)
  qed
qed

lemma locator_snd:
  "snd (getProjectPathFromEncodedName host rt n) =
     (case registry host rt of
        None \<Rightarrow> None
      | Some (home, ps) \<Rightarrow>
          if n \<in> set (historyDirs rt home) then find (\<lambda>p. expectedEncoded p = n) ps else None)"
proof (cases "registry host rt")
  case None
  then show ?thesis
    by (auto simp: registry_def getProjectPathFromEncodedName_def Let_def
        split: option.splits if_splits sum.splits config.splits prod.splits)
next
  case (Some r)
  obtain home ps where r: "r = (home, ps)" by (cases r)
  from Some r have h: "getHomeDir rt = Some home" "home \<noteq> []"
    and c: "\<exists>content. readTextFile rt (home @ js ''/.claude.json'') = Inr content
              \<and> jsonProjects host content = Projects ps"
    by (auto simp: registry_def split: option.splits if_splits sum.splits config.splits)
  from c obtain content where rd: "readTextFile rt (home @ js ''/.claude.json'') = Inr content"
    and pj: "jsonProjects host content = Projects ps" by blast
  have "snd (getProjectPathFromEncodedName host rt n) = snd (findProject rt n ps)"
    using h rd pj by (simp add: getProjectPathFromEncodedName_def Let_def split: prod.splits)
  then show ?thesis
    using findProject_snd [OF h, of n ps] Some r by simp
qed

lemma found_encodes:
  assumes "getProjectPathFromEncodedName host rt n = (lookup, Some root)"
  shows "expectedEncoded root = n \<and> (\<exists>home. getHomeDir rt = Some home)"
proof -
  have s: "snd (getProjectPathFromEncodedName host rt n) = Some root"
    using assms by simp
  then obtain home ps where r: "registry host rt = Some (home, ps)"
    and f: "find (\<lambda>p. expectedEncoded p = n) ps = Some root"
    unfolding locator_snd by (auto split: option.splits if_splits)
  from f have "expectedEncoded root = n"
    by (auto simp: find_Some_iff)
  moreover from r have "\<exists>home. getHomeDir rt = Some home"
    by (auto simp: registry_def split: option.splits)
  ultimately show ?thesis by simp
qed

lemma found_nonempty:
  assumes "getProjectPathFromEncodedName host rt n = (lookup, Some root)" "n \<noteq> []"
  shows "root \<noteq> []"
  using found_encodes [OF assms(1)] assms(2)
  by (auto simp: expectedEncoded_def hyphenate_def stripTrailingSlash_def)

text \<open>
  C5, as the code has it. The locator returns the first registry path whose encoded form
  (one trailing slash removed, then every slash, backslash, colon and dot replaced by a
  hyphen) equals the requested name, provided that name is also the name of a directory
  listed under \<^verbatim>\<open><home>/.claude/projects\<close>. It returns nothing when no registry path
  matches, when no such directory is listed, and when the registry is unavailable.
\<close>

theorem locator_finds_first_listed:
  "snd (getProjectPathFromEncodedName host rt n) =
     (case registry host rt of
        None \<Rightarrow> None
      | Some (home, ps) \<Rightarrow>
          if n \<in> set (historyDirs rt home) then find (\<lambda>p. expectedEncoded p = n) ps else None)"
  by (rule locator_snd)

theorem locator_finds_first_listed_witness:
  "snd (getProjectPathFromEncodedName host0 runtime0 (js ''-p'')) = Some (js ''/p'')"
proof -
  have d: "historyDirs runtime0 (js ''/h'') = [js ''-p'', js ''-w?x'']"
    by (simp add: historyDirs_def example_defs)
  have f: "find (\<lambda>p. expectedEncoded p = js ''-p'') [js ''/a'', js ''/p'', js ''/p/'', js ''/w?x'']
           = Some (js ''/p'')"
    by (simp add: expectedEncoded_def hyphenate_def stripTrailingSlash_def js_def)
  have "snd (getProjectPathFromEncodedName host0 runtime0 (js ''-p''))
        = (if js ''-p'' \<in> set [js ''-p'', js ''-w?x'']
           then find (\<lambda>p. expectedEncoded p = js ''-p'') [js ''/a'', js ''/p'', js ''/p/'', js ''/w?x'']
           else None)"
    using locator_finds_first_listed [of host0 runtime0 "js ''-p''"]
    by (simp only: registry0 d option.case prod.case)
  then show ?thesis
    by (simp only: f list.set insert_iff simp_thms if_True)
qed

text \<open>
  C5 as stated fails: the registry of the example installation holds \<^verbatim>\<open>/a\<close>, whose encoded
  form is \<^verbatim>\<open>-a\<close>, and the locator finds nothing for \<^verbatim>\<open>-a\<close>, since no directory of that
  name is listed under \<^verbatim>\<open>/h/.claude/projects\<close>.
\<close>

theorem locator_needs_history_directory:
  "registry host0 runtime0 = Some (js ''/h'', [js ''/a'', js ''/p'', js ''/p/'', js ''/w?x''])
   \<and> expectedEncoded (js ''/a'') = js ''-a''
   \<and> hyphenate (js ''/a'') = js ''-a''
   \<and> snd (getProjectPathFromEncodedName host0 runtime0 (js ''-a'')) = None"
proof -
  have b: "expectedEncoded (js ''/a'') = js ''-a''"
    by (simp add: expectedEncoded_def hyphenate_def stripTrailingSlash_def js_def)
  have c: "hyphenate (js ''/a'') = js ''-a''"
    by (simp add: hyphenate_def js_def)
  have d: "snd (getProjectPathFromEncodedName host0 runtime0 (js ''-a'')) = None"
    by (simp add: locator_defs example_defs)
  show ?thesis
    by (intro conjI registry0 b c d)
qed

text \<open>
  C10, as the code has it. The encoding removes one trailing slash before it replaces
  characters. For every project path \<open>p\<close> that does not itself end with a slash, \<open>p\<close>
  and \<open>p\<close> followed by a slash have the same encoded form, and the locator, which sees a
  registry path only through \<open>getEncodedProjectName\<close>, cannot tell them apart.
\<close>

theorem trailing_slash_indistinguishable:
  assumes "\<not> endsWith p (js ''/'')"
  shows "stripTrailingSlash (p @ js ''/'') = p
         \<and> expectedEncoded (p @ js ''/'') = expectedEncoded p
         \<and> getEncodedProjectName rt (p @ js ''/'') = getEncodedProjectName rt p"
proof -
  have e: "expectedEncoded (p @ js ''/'') = expectedEncoded p"
    using assms by (simp add: expectedEncoded_def stripTrailingSlash_append stripTrailingSlash_id)
  have g: "getEncodedProjectName rt (p @ js ''/'') = getEncodedProjectName rt p"
    unfolding getEncodedProjectName_def e ..
  show ?thesis
    by (simp add: stripTrailingSlash_append e g)
qed

theorem trailing_slash_indistinguishable_witness:
  "\<not> endsWith (js ''/p'') (js ''/'')
   \<and> expectedEncoded (js ''/p'' @ js ''/'') = expectedEncoded (js ''/p'')
   \<and> getEncodedProjectName runtime0 (js ''/p'' @ js ''/'') = getEncodedProjectName runtime0 (js ''/p'')"
proof -
  have h: "\<not> endsWith (js ''/p'') (js ''/'')"
    by (simp add: endsWith_def js_def)
  show ?thesis
    using h trailing_slash_indistinguishable [OF h, of runtime0] by simp
qed

text \<open>
  C10 as stated fails for a path that already ends with a slash: \<^verbatim>\<open>/a/\<close> is encoded as
  \<^verbatim>\<open>-a\<close>, and \<^verbatim>\<open>/a//\<close> as \<^verbatim>\<open>-a-\<close>.
\<close>

theorem trailing_slash_twice_differs:
  "expectedEncoded (js ''/a/'' @ js ''/'') \<noteq> expectedEncoded (js ''/a/'')"
  by (simp add: expectedEncoded_def hyphenate_def stripTrailingSlash_def js_def)

subsection \<open>The path resolver\<close>

text \<open>
  C2. For every root and every raw relative path, also one the boundary check would
  refuse, the path that \<open>safeResolvePath\<close> returns begins with the root followed by
  the separator \<^verbatim>\<open>/\<close>.
\<close>

theorem safeResolvePath_prefixed:
  "prefix (root @ js ''/'') (safeResolvePath root rawPath)"
  by (simp add: safeResolvePath_def js_def Let_def)

subsection \<open>The boundary check and the project name\<close>

lemma traversal_nonempty: "traversal p \<Longrightarrow> p \<noteq> []"
  by (auto simp: traversal_def startsWith_def)

lemma stripDownload_nonempty: "stripDownload d \<noteq> [] \<Longrightarrow> d \<noteq> []"
  by (auto simp: stripDownload_def)

lemma lookup0:
  "getProjectPathFromEncodedName host0 runtime0 (js ''-p'')
   = ([ReadTextFile (js ''/h/.claude.json''), ReadDir (js ''/h/.claude/projects''),
       ReadDir (js ''/h/.claude/projects'')], Some (js ''/p''))"
  by (simp add: locator_defs example_defs)

lemma list_403:
  assumes "traversal p" "getProjectPathFromEncodedName host rt n = (lookup, Some root)" "n \<noteq> []"
  shows "handleFilesList host rt (Some n) (Some p)
         = (lookup, 403, ErrorBody (js ''Access denied: Invalid path''))"
  using assms found_nonempty [OF assms(2,3)] by (simp add: handleFilesList_def present_def)

lemma content_403:
  assumes "traversal p" "getProjectPathFromEncodedName host rt n = (lookup, Some root)" "n \<noteq> []"
  shows "handleFileContent host rt (Some n) (Some p)
         = (lookup, 403, ErrorBody (js ''Access denied: Invalid file path''))"
  using assms found_nonempty [OF assms(2,3)] traversal_nonempty [of p]
  by (simp add: handleFileContent_def present_def)

lemma download_403:
  assumes "traversal (stripDownload d)"
    "getProjectPathFromEncodedName host rt n = (lookup, Some root)" "n \<noteq> []"
  shows "handleFileDownload host rt (Some n) (Some d)
         = (lookup, 403, ErrorBody (js ''Access denied: Invalid file path''))"
  using assms found_nonempty [OF assms(2,3)] stripDownload_nonempty [of d]
    traversal_nonempty [of "stripDownload d"]
  by (simp add: handleFileDownload_def present_def)

text \<open>
  C1, as the code has it. When the project name is not empty and the locator resolves
  it, a request to List, ReadContent or Download whose relative path contains \<^verbatim>\<open>..\<close> or
  begins with a slash (for Download: after a trailing \<^verbatim>\<open>/download\<close> is removed) is answered
  403. The calls made before the answer are those of the project lookup, which reads
  \<^verbatim>\<open><home>/.claude.json\<close> and lists \<^verbatim>\<open><home>/.claude/projects\<close>, and no others: there is no
  \<^verbatim>\<open>exists\<close>, no \<^verbatim>\<open>stat\<close> and no read of the requested target.
\<close>

theorem traversal_rejected:
  assumes "traversal p"
    and "getProjectPathFromEncodedName host rt n = (lookup, Some root)"
    and "n \<noteq> []"
    and "stripDownload d = p"
  shows "handleFilesList host rt (Some n) (Some p)
           = (lookup, 403, ErrorBody (js ''Access denied: Invalid path''))
         \<and> handleFileContent host rt (Some n) (Some p)
           = (lookup, 403, ErrorBody (js ''Access denied: Invalid file path''))
         \<and> handleFileDownload host rt (Some n) (Some d)
           = (lookup, 403, ErrorBody (js ''Access denied: Invalid file path''))
         \<and> (\<exists>home. getHomeDir rt = Some home
              \<and> set lookup \<subseteq> {ReadTextFile (home @ js ''/.claude.json''),
                                ReadDir (home @ js ''/.claude/projects'')})"
proof -
  obtain home where h: "getHomeDir rt = Some home"
    using found_encodes [OF assms(2)] by blast
  have "set lookup \<subseteq> {ReadTextFile (home @ js ''/.claude.json''),
                       ReadDir (home @ js ''/.claude/projects'')}"
    using lookup_calls [OF h, of host n] assms(2) by simp
  with h have l: "\<exists>home. getHomeDir rt = Some home
              \<and> set lookup \<subseteq> {ReadTextFile (home @ js ''/.claude.json''),
                                ReadDir (home @ js ''/.claude/projects'')}"
    by blast
  have d: "traversal (stripDownload d)"
    using assms(1,4) by simp
  show ?thesis
    by (intro conjI list_403 [OF assms(1-3)] content_403 [OF assms(1-3)]
        download_403 [OF d assms(2,3)] l)
qed

theorem traversal_rejected_witness:
  "traversal (js ''../x'')
   \<and> handleFilesList host0 runtime0 (Some (js ''-p'')) (Some (js ''../x''))
       = ([ReadTextFile (js ''/h/.claude.json''), ReadDir (js ''/h/.claude/projects''),
           ReadDir (js ''/h/.claude/projects'')],
          403, ErrorBody (js ''Access denied: Invalid path''))
   \<and> handleFileDownload host0 runtime0 (Some (js ''-p'')) (Some (js ''../x/download''))
       = ([ReadTextFile (js ''/h/.claude.json''), ReadDir (js ''/h/.claude/projects''),
           ReadDir (js ''/h/.claude/projects'')],
          403, ErrorBody (js ''Access denied: Invalid file path''))"
proof -
  have t: "traversal (js ''../x'')"
    by (simp add: traversal_def startsWith_def js_def)
  have n: "js ''-p'' \<noteq> []"
    by (simp add: js_def)
  have s: "stripDownload (js ''../x/download'') = js ''../x''"
    by (simp add: stripDownload_def endsWith_def js_def)
  note r = traversal_rejected [OF t lookup0 n s]
  show ?thesis
    by (intro conjI t r [THEN conjunct1] r [THEN conjunct2, THEN conjunct2, THEN conjunct1])
qed

text \<open>
  C1 as stated fails in two ways on the example installation. The 403 for \<^verbatim>\<open>../x\<close> comes
  after three calls to the file system, those of the project lookup; and with a project
  name that does not resolve the answer to the same path is 404.
\<close>

theorem traversal_checked_after_lookup:
  "handleFilesList host0 runtime0 (Some (js ''-p'')) (Some (js ''../x''))
     = ([ReadTextFile (js ''/h/.claude.json''), ReadDir (js ''/h/.claude/projects''),
         ReadDir (js ''/h/.claude/projects'')],
        403, ErrorBody (js ''Access denied: Invalid path''))
   \<and> snd (handleFilesList host0 runtime0 (Some (js ''-a'')) (Some (js ''../x'')))
     = (404, ErrorBody (js ''Project not found''))"
proof -
  have a: "handleFilesList host0 runtime0 (Some (js ''-p'')) (Some (js ''../x''))
     = ([ReadTextFile (js ''/h/.claude.json''), ReadDir (js ''/h/.claude/projects''),
         ReadDir (js ''/h/.claude/projects'')],
        403, ErrorBody (js ''Access denied: Invalid path''))"
    by (simp add: handleFilesList_def locator_defs path_defs example_defs)
  have b: "snd (handleFilesList host0 runtime0 (Some (js ''-a'')) (Some (js ''../x'')))
     = (404, ErrorBody (js ''Project not found''))"
    by (simp add: handleFilesList_def locator_defs path_defs example_defs)
  show ?thesis
    by (intro conjI a b)
qed

lemma list_status_403:
  "fst (snd (handleFilesList host rt en q)) = 403 \<longrightarrow>
     traversal (case q of None \<Rightarrow> [] | Some p \<Rightarrow> p)
     \<and> (\<exists>m root. en = Some m \<and> m \<noteq> [] \<and> snd (getProjectPathFromEncodedName host rt m) = Some root)"
  by (auto simp: handleFilesList_def present_def Let_def
      split: option.splits if_splits prod.splits sum.splits)

lemma content_status_403:
  "fst (snd (handleFileContent host rt en q)) = 403 \<longrightarrow>
     (\<exists>p. q = Some p \<and> traversal p)
     \<and> (\<exists>m root. en = Some m \<and> m \<noteq> [] \<and> snd (getProjectPathFromEncodedName host rt m) = Some root)"
  by (auto simp: handleFileContent_def present_def Let_def
      split: option.splits if_splits prod.splits sum.splits mime.splits)

lemma download_status_403:
  "fst (snd (handleFileDownload host rt en q)) = 403 \<longrightarrow>
     (\<exists>p. q = Some p \<and> traversal (stripDownload p))
     \<and> (\<exists>m root. en = Some m \<and> m \<noteq> [] \<and> snd (getProjectPathFromEncodedName host rt m) = Some root)"
  by (auto simp: handleFileDownload_def present_def Let_def
      split: option.splits if_splits prod.splits sum.splits)

lemma dangerous_chars:
  "dangerousChar c \<longleftrightarrow> c \<in> {0x3C, 0x3E, 0x3A, 0x22, 0x7C, 0x3F, 0x2A, 0x2F, 0x5C} \<or> c \<le> 0x1F"
  unfolding dangerousChar_def insert_iff empty_iff by blast

lemma validate_chars:
  "validateEncodedProjectName n
   \<longleftrightarrow> n \<noteq> [] \<and> (\<forall>c\<in>set n. c \<notin> {0x3C, 0x3E, 0x3A, 0x22, 0x7C, 0x3F, 0x2A, 0x2F, 0x5C} \<and> 0x1F < c)"
proof (cases "n = []")
  case True
  then show ?thesis by (simp add: validateEncodedProjectName_def)
next
  case False
  then show ?thesis
    unfolding validateEncodedProjectName_def list_ex_iff dangerous_chars not_le [symmetric]
      if_bool_eq_conj
    by blast
qed

lemma list_400:
  "\<not> present en \<longrightarrow>
     handleFilesList host rt en q = ([], 400, ErrorBody (js ''Project name is required''))"
  by (auto simp: handleFilesList_def present_def split: option.splits)

lemma content_400:
  "\<not> present en \<or> \<not> present q \<longrightarrow>
     handleFileContent host rt en q
       = ([], 400, ErrorBody (js ''Project name and file path are required''))"
  by (auto simp: handleFileContent_def)

lemma download_400:
  "\<not> present en \<or> \<not> present q \<longrightarrow>
     handleFileDownload host rt en q
       = ([], 400, ErrorBody (js ''Project name and file path are required''))"
  by (auto simp: handleFileDownload_def)

lemma list_404:
  "n \<noteq> [] \<and> snd (getProjectPathFromEncodedName host rt n) = None \<longrightarrow>
     handleFilesList host rt (Some n) q
       = (fst (getProjectPathFromEncodedName host rt n), 404, ErrorBody (js ''Project not found''))"
  by (auto simp: handleFilesList_def present_def split: prod.splits)

lemma content_404:
  "n \<noteq> [] \<and> present q \<and> snd (getProjectPathFromEncodedName host rt n) = None \<longrightarrow>
     handleFileContent host rt (Some n) q
       = (fst (getProjectPathFromEncodedName host rt n), 404, ErrorBody (js ''Project not found''))"
  by (auto simp: handleFileContent_def present_def split: prod.splits)

lemma download_404:
  "n \<noteq> [] \<and> present q \<and> snd (getProjectPathFromEncodedName host rt n) = None \<longrightarrow>
     handleFileDownload host rt (Some n) q
       = (fst (getProjectPathFromEncodedName host rt n), 404, ErrorBody (js ''Project not found''))"
  by (auto simp: handleFileDownload_def present_def Let_def split: prod.splits)

lemma list_looks_up:
  "n \<noteq> [] \<longrightarrow>
     prefix (fst (getProjectPathFromEncodedName host rt n)) (fst (handleFilesList host rt (Some n) q))"
  by (auto simp: handleFilesList_def present_def Let_def
      split: option.splits prod.splits sum.splits)

lemma content_looks_up:
  "n \<noteq> [] \<and> present q \<longrightarrow>
     prefix (fst (getProjectPathFromEncodedName host rt n)) (fst (handleFileContent host rt (Some n) q))"
  by (auto simp: handleFileContent_def present_def Let_def
      split: option.splits prod.splits sum.splits mime.splits)

lemma download_looks_up:
  "n \<noteq> [] \<and> present q \<longrightarrow>
     prefix (fst (getProjectPathFromEncodedName host rt n)) (fst (handleFileDownload host rt (Some n) q))"
  by (auto simp: handleFileDownload_def present_def Let_def
      split: option.splits prod.splits sum.splits)

text \<open>
  C4, as the code has it. \<open>validateEncodedProjectName\<close> refuses exactly the names that are
  empty or contain one of \<^verbatim>\<open>< > : " | ? *\<close>, a control character, a slash or a backslash;
  List, ReadContent and Download do not call it. They answer 400, without any call to the
  file system, to a missing or empty name, and ReadContent and Download also to a missing
  or empty path. In every other request the name, whether the validator accepts it or
  not, goes to the project lookup: the calls of the handler begin with those of the
  lookup, and the answer is 404 when the lookup finds nothing. A 403 is only ever the
  answer to a path that fails the boundary check, in a project that was resolved.
\<close>

theorem name_not_validated:
  "(validateEncodedProjectName n
      \<longleftrightarrow> n \<noteq> [] \<and> (\<forall>c\<in>set n. c \<notin> {0x3C, 0x3E, 0x3A, 0x22, 0x7C, 0x3F, 0x2A, 0x2F, 0x5C} \<and> 0x1F < c))
   \<and> (\<not> present en \<longrightarrow>
        handleFilesList host rt en q = ([], 400, ErrorBody (js ''Project name is required'')))
   \<and> (\<not> present en \<or> \<not> present q \<longrightarrow>
        handleFileContent host rt en q
          = ([], 400, ErrorBody (js ''Project name and file path are required'')))
   \<and> (\<not> present en \<or> \<not> present q \<longrightarrow>
        handleFileDownload host rt en q
          = ([], 400, ErrorBody (js ''Project name and file path are required'')))
   \<and> (n \<noteq> [] \<longrightarrow>
        prefix (fst (getProjectPathFromEncodedName host rt n))
          (fst (handleFilesList host rt (Some n) q)))
   \<and> (n \<noteq> [] \<and> present q \<longrightarrow>
        prefix (fst (getProjectPathFromEncodedName host rt n))
          (fst (handleFileContent host rt (Some n) q)))
   \<and> (n \<noteq> [] \<and> present q \<longrightarrow>
        prefix (fst (getProjectPathFromEncodedName host rt n))
          (fst (handleFileDownload host rt (Some n) q)))
   \<and> (n \<noteq> [] \<and> snd (getProjectPathFromEncodedName host rt n) = None \<longrightarrow>
        handleFilesList host rt (Some n) q
          = (fst (getProjectPathFromEncodedName host rt n), 404, ErrorBody (js ''Project not found'')))
   \<and> (n \<noteq> [] \<and> present q \<and> snd (getProjectPathFromEncodedName host rt n) = None \<longrightarrow>
        handleFileContent host rt (Some n) q
          = (fst (getProjectPathFromEncodedName host rt n), 404, ErrorBody (js ''Project not found'')))
   \<and> (n \<noteq> [] \<and> present q \<and> snd (getProjectPathFromEncodedName host rt n) = None \<longrightarrow>
        handleFileDownload host rt (Some n) q
          = (fst (getProjectPathFromEncodedName host rt n), 404, ErrorBody (js ''Project not found'')))
   \<and> (fst (snd (handleFilesList host rt en q)) = 403 \<longrightarrow>
        traversal (case q of None \<Rightarrow> [] | Some p \<Rightarrow> p)
        \<and> (\<exists>m root. en = Some m \<and> m \<noteq> [] \<and> snd (getProjectPathFromEncodedName host rt m) = Some root))
   \<and> (fst (snd (handleFileContent host rt en q)) = 403 \<longrightarrow>
        (\<exists>p. q = Some p \<and> traversal p)
        \<and> (\<exists>m root. en = Some m \<and> m \<noteq> [] \<and> snd (getProjectPathFromEncodedName host rt m) = Some root))
   \<and> (fst (snd (handleFileDownload host rt en q)) = 403 \<longrightarrow>
        (\<exists>p. q = Some p \<and> traversal (stripDownload p))
        \<and> (\<exists>m root. en = Some m \<and> m \<noteq> [] \<and> snd (getProjectPathFromEncodedName host rt m) = Some root))"
  by (intro conjI validate_chars list_400 content_400 download_400 list_looks_up
      content_looks_up download_looks_up list_404 content_404 download_404
      list_status_403 content_status_403 download_status_403)

theorem name_not_validated_witness:
  "\<not> validateEncodedProjectName (js ''a:b'')
   \<and> snd (getProjectPathFromEncodedName host0 runtime0 (js ''a:b'')) = None
   \<and> snd (handleFilesList host0 runtime0 (Some (js ''a:b'')) (Some (js ''x'')))
       = (404, ErrorBody (js ''Project not found''))
   \<and> snd (handleFileContent host0 runtime0 (Some (js ''a:b'')) (Some (js ''x'')))
       = (404, ErrorBody (js ''Project not found''))
   \<and> snd (handleFileDownload host0 runtime0 (Some (js ''a:b'')) (Some (js ''x'')))
       = (404, ErrorBody (js ''Project not found''))
   \<and> handleFileContent host0 runtime0 (Some (js ''a:b'')) None
       = ([], 400, ErrorBody (js ''Project name and file path are required''))
   \<and> \<not> validateEncodedProjectName (js ''-w?x'')
   \<and> fst (snd (handleFilesList host0 runtime0 (Some (js ''-w?x'')) (Some (js ''../x'')))) = 403
   \<and> traversal (js ''../x'')"
proof -
  have v: "\<not> validateEncodedProjectName (js ''a:b'')"
    by (simp add: validateEncodedProjectName_def dangerousChar_def js_def)
  have n: "js ''a:b'' \<noteq> []"
    by (simp add: js_def)
  have x: "present (Some (js ''x''))"
    by (simp add: present_def js_def)
  have l: "snd (getProjectPathFromEncodedName host0 runtime0 (js ''a:b'')) = None"
    by (simp add: locator_defs example_defs)
  note r = name_not_validated [of "js ''a:b''" "Some (js ''a:b'')" host0 runtime0 "Some (js ''x'')"]
  note r8 = r [THEN conjunct2, THEN conjunct2, THEN conjunct2, THEN conjunct2, THEN conjunct2,
      THEN conjunct2, THEN conjunct2, THEN conjunct1]
  note r9 = r [THEN conjunct2, THEN conjunct2, THEN conjunct2, THEN conjunct2, THEN conjunct2,
      THEN conjunct2, THEN conjunct2, THEN conjunct2, THEN conjunct1]
  note r10 = r [THEN conjunct2, THEN conjunct2, THEN conjunct2, THEN conjunct2, THEN conjunct2,
      THEN conjunct2, THEN conjunct2, THEN conjunct2, THEN conjunct2, THEN conjunct1]
  have 1: "snd (handleFilesList host0 runtime0 (Some (js ''a:b'')) (Some (js ''x'')))
       = (404, ErrorBody (js ''Project not found''))"
    using r8 n l by simp
  have 2: "snd (handleFileContent host0 runtime0 (Some (js ''a:b'')) (Some (js ''x'')))
       = (404, ErrorBody (js ''Project not found''))"
    using r9 n x l by simp
  have 3: "snd (handleFileDownload host0 runtime0 (Some (js ''a:b'')) (Some (js ''x'')))
       = (404, ErrorBody (js ''Project not found''))"
    using r10 n x l by simp
  note s = name_not_validated [of "js ''a:b''" "Some (js ''a:b'')" host0 runtime0 None]
  have 4: "handleFileContent host0 runtime0 (Some (js ''a:b'')) None
       = ([], 400, ErrorBody (js ''Project name and file path are required''))"
    using s [THEN conjunct2, THEN conjunct2, THEN conjunct1] by (simp add: present_def)
  have w: "\<not> validateEncodedProjectName (js ''-w?x'')"
    by (simp add: validateEncodedProjectName_def dangerousChar_def js_def)
  have f: "fst (snd (handleFilesList host0 runtime0 (Some (js ''-w?x'')) (Some (js ''../x'')))) = 403"
    by (simp add: handleFilesList_def locator_defs path_defs example_defs)
  note u = name_not_validated [of "js ''a:b''" "Some (js ''-w?x'')" host0 runtime0 "Some (js ''../x'')"]
  note u11 = u [THEN conjunct2, THEN conjunct2, THEN conjunct2, THEN conjunct2, THEN conjunct2,
      THEN conjunct2, THEN conjunct2, THEN conjunct2, THEN conjunct2, THEN conjunct2,
      THEN conjunct1]
  have 5: "traversal (js ''../x'')"
    using u11 f by simp
  show ?thesis
    by (intro conjI v l 1 2 3 4 w f 5)
qed

text \<open>
  C4 as stated fails: the name \<^verbatim>\<open>-w?x\<close> contains a question mark, the validator refuses
  it, and List resolves it to the project \<^verbatim>\<open>/w?x\<close> and answers 200.
\<close>

theorem unsafe_name_served:
  "\<not> validateEncodedProjectName (js ''-w?x'')
   \<and> handleFilesList host0 runtime0 (Some (js ''-w?x'')) None
       = ([ReadTextFile (js ''/h/.claude.json''), ReadDir (js ''/h/.claude/projects''),
           ReadDir (js ''/h/.claude/projects''), ReadDir (js ''/h/.claude/projects''),
           ReadDir (js ''/h/.claude/projects''), Exists (js ''/w?x'')],
          200, FilesListResponse [] [])"
proof -
  have a: "\<not> validateEncodedProjectName (js ''-w?x'')"
    by (simp add: validateEncodedProjectName_def dangerousChar_def js_def)
  have b: "handleFilesList host0 runtime0 (Some (js ''-w?x'')) None
       = ([ReadTextFile (js ''/h/.claude.json''), ReadDir (js ''/h/.claude/projects''),
           ReadDir (js ''/h/.claude/projects''), ReadDir (js ''/h/.claude/projects''),
           ReadDir (js ''/h/.claude/projects''), Exists (js ''/w?x'')],
          200, FilesListResponse [] [])"
    by (simp add: handleFilesList_def locator_defs path_defs example_defs)
  show ?thesis
    by (intro conjI a b)
qed

subsection \<open>Listing\<close>

text \<open>
  C7. When the project is resolved and the requested path \<open>p\<close> passes the boundary check,
  so that a target directory is resolved at all, and that directory does not exist, List
  answers 200 with no files and with \<open>p\<close> as the current path.
\<close>

theorem missing_directory_lists_empty:
  assumes "getProjectPathFromEncodedName host rt n = (lookup, Some root)" "n \<noteq> []"
    and "p = (case q of None \<Rightarrow> [] | Some x \<Rightarrow> x)"
    and "\<not> traversal p"
    and "\<not> exists rt (if p \<noteq> [] then safeResolvePath root p else root)"
  shows "snd (handleFilesList host rt (Some n) q) = (200, FilesListResponse [] p)"
proof -
  have r: "root \<noteq> []"
    by (rule found_nonempty [OF assms(1,2)])
  have q: "(case q of None \<Rightarrow> [] | Some x \<Rightarrow> x) = p"
    using assms(3) by simp
  show ?thesis
    using assms(1,2,4,5) r by (simp add: handleFilesList_def present_def Let_def q)
qed

theorem missing_directory_lists_empty_witness:
  "\<not> exists runtime0 (safeResolvePath (js ''/p'') (js ''nope/deeper''))
   \<and> snd (handleFilesList host0 runtime0 (Some (js ''-p'')) (Some (js ''nope/deeper'')))
       = (200, FilesListResponse [] (js ''nope/deeper''))"
proof -
  have n: "js ''-p'' \<noteq> []"
    by (simp add: js_def)
  have p: "js ''nope/deeper'' = (case Some (js ''nope/deeper'') of None \<Rightarrow> [] | Some x \<Rightarrow> x)"
    by simp
  have t: "\<not> traversal (js ''nope/deeper'')"
    by (simp add: traversal_def startsWith_def js_def)
  have e: "\<not> exists runtime0 (safeResolvePath (js ''/p'') (js ''nope/deeper''))"
    by (simp add: path_defs example_defs)
  have e': "\<not> exists runtime0 (if js ''nope/deeper'' \<noteq> []
                then safeResolvePath (js ''/p'') (js ''nope/deeper'') else js ''/p'')"
    using e by (simp add: js_def)
  show ?thesis
    by (intro conjI e missing_directory_lists_empty [OF lookup0 n p t e'])
qed

subsection \<open>The order of a listing\<close>

lemma set_insert_by: "set (insert_by cmp x ys) = insert x (set ys)"
  by (induction ys) auto

lemma sorted_insert_by:
  assumes tot: "\<And>a b. cmp a b \<le> 0 \<or> cmp b a \<le> 0"
    and tr: "\<And>a b c. cmp a b \<le> 0 \<Longrightarrow> cmp b c \<le> 0 \<Longrightarrow> cmp a c \<le> 0"
  shows "sorted_wrt (\<lambda>a b. cmp a b \<le> 0) ys
         \<Longrightarrow> sorted_wrt (\<lambda>a b. cmp a b \<le> 0) (insert_by cmp x ys)"
proof (induction ys)
  case Nil
  show ?case by simp
next
  case (Cons y ys)
  show ?case
  proof (cases "cmp x y \<le> 0")
    case True
    then have "\<forall>z\<in>set ys. cmp x z \<le> 0"
      using Cons.prems tr by auto
    with True Cons.prems show ?thesis by simp
  next
    case False
    then have "cmp y x \<le> 0" using tot [of x y] by simp
    with False Cons show ?thesis by (simp add: set_insert_by)
  qed
qed

lemma sorted_sort_by:
  assumes tot: "\<And>a b. cmp a b \<le> 0 \<or> cmp b a \<le> 0"
    and tr: "\<And>a b c. cmp a b \<le> 0 \<Longrightarrow> cmp b c \<le> 0 \<Longrightarrow> cmp a c \<le> 0"
  shows "sorted_wrt (\<lambda>a b. cmp a b \<le> 0) (sort_by cmp xs)"
proof (induction xs)
  case Nil
  show ?case by (simp add: sort_by_def)
next
  case (Cons x xs)
  then show ?case
    using sorted_insert_by [of cmp "sort_by cmp xs" x, OF tot tr]
    by (simp add: sort_by_def)
qed

lemma compareFiles_le: "compareFiles host a b \<le> 0 \<longleftrightarrow> listedBefore host a b"
  by (cases "fi_type a"; cases "fi_type b") (simp_all add: compareFiles_def listedBefore_def)

lemma listedBefore_total:
  assumes "\<forall>a b. localeCompare host a b \<le> 0 \<or> localeCompare host b a \<le> 0"
  shows "listedBefore host a b \<or> listedBefore host b a"
proof -
  have "localeCompare host (fi_name a) (fi_name b) \<le> 0
        \<or> localeCompare host (fi_name b) (fi_name a) \<le> 0"
    using assms by blast
  then show ?thesis
    by (cases "fi_type a"; cases "fi_type b") (auto simp: listedBefore_def)
qed

lemma listedBefore_trans:
  assumes "\<forall>a b c. localeCompare host a b \<le> 0 \<and> localeCompare host b c \<le> 0
             \<longrightarrow> localeCompare host a c \<le> 0"
    and "listedBefore host a b" "listedBefore host b c"
  shows "listedBefore host a c"
proof -
  have "localeCompare host (fi_name a) (fi_name b) \<le> 0
        \<Longrightarrow> localeCompare host (fi_name b) (fi_name c) \<le> 0
        \<Longrightarrow> localeCompare host (fi_name a) (fi_name c) \<le> 0"
    using assms(1) by blast
  then show ?thesis
    using assms(2,3)
    by (cases "fi_type a"; cases "fi_type b"; cases "fi_type c") (auto simp: listedBefore_def)
qed

lemma sorted_listing:
  assumes tot: "\<forall>a b. localeCompare host a b \<le> 0 \<or> localeCompare host b a \<le> 0"
    and tr: "\<forall>a b c. localeCompare host a b \<le> 0 \<and> localeCompare host b c \<le> 0
             \<longrightarrow> localeCompare host a c \<le> 0"
  shows "sorted_wrt (listedBefore host) (sort_by (compareFiles host) xs)"
proof -
  have tot': "compareFiles host a b \<le> 0 \<or> compareFiles host b a \<le> 0" for a b
    unfolding compareFiles_le by (rule listedBefore_total [OF tot])
  have tr': "compareFiles host a b \<le> 0 \<Longrightarrow> compareFiles host b c \<le> 0
             \<Longrightarrow> compareFiles host a c \<le> 0" for a b c
    unfolding compareFiles_le by (rule listedBefore_trans [OF tr])
  have "sorted_wrt (\<lambda>a b. compareFiles host a b \<le> 0) (sort_by (compareFiles host) xs)"
    by (rule sorted_sort_by [OF tot' tr'])
  then show ?thesis
    unfolding compareFiles_le .
qed

lemma list_files_form:
  assumes "snd (handleFilesList host rt en q) = (status, FilesListResponse files cur)"
  shows "files = [] \<or> (\<exists>xs. files = sort_by (compareFiles host) xs)"
  using assms
  by (auto simp: handleFilesList_def present_def Let_def
      split: option.splits if_splits prod.splits sum.splits)

lemma compareUnits_total: "compareUnits a b \<le> 0 \<or> compareUnits b a \<le> 0"
  by (induction a b rule: compareUnits.induct) auto

lemma compareUnits_trans:
  "compareUnits a b \<le> 0 \<Longrightarrow> compareUnits b c \<le> 0 \<Longrightarrow> compareUnits a c \<le> 0"
proof (induction a b arbitrary: c rule: compareUnits.induct)
  case 1
  then show ?case by simp
next
  case (2 y ys)
  then show ?case by (cases c) simp_all
next
  case (3 x xs)
  then show ?case by simp
next
  case (4 x xs y ys)
  then show ?case
    by (cases c) (auto split: if_splits)
qed

lemma listing0:
  "snd (handleFilesList host0 runtime0 (Some (js ''-p'')) None) = (200, FilesListResponse files0 [])"
  by (simp add: handleFilesList_def locator_defs path_defs example_defs fileInfo_def sort_by_def
      compareFiles_def getFileExtension_def files0_def)

text \<open>
  C8. ECMAScript requires \<^verbatim>\<open>localeCompare\<close> to be a consistent comparator: any two strings
  are comparable, and the comparison is transitive. For such a host, in every file list
  that List returns, an entry stands before a later one in the sense of \<open>listedBefore\<close>:
  if their types differ the earlier one is the directory, and if they agree the earlier
  name is not greater than the later one by \<^verbatim>\<open>localeCompare\<close>.
\<close>

theorem listing_sorted:
  assumes "\<forall>a b. localeCompare host a b \<le> 0 \<or> localeCompare host b a \<le> 0"
    and "\<forall>a b c. localeCompare host a b \<le> 0 \<and> localeCompare host b c \<le> 0
             \<longrightarrow> localeCompare host a c \<le> 0"
    and "snd (handleFilesList host rt en q) = (status, FilesListResponse files cur)"
  shows "sorted_wrt (listedBefore host) files"
proof -
  from list_files_form [OF assms(3)]
  show ?thesis
  proof
    assume "files = []"
    then show ?thesis by simp
  next
    assume "\<exists>xs. files = sort_by (compareFiles host) xs"
    then obtain xs where "files = sort_by (compareFiles host) xs" by blast
    then show ?thesis
      using sorted_listing [OF assms(1,2), of xs] by simp
  qed
qed

theorem listing_sorted_witness:
  "snd (handleFilesList host0 runtime0 (Some (js ''-p'')) None) = (200, FilesListResponse files0 [])
   \<and> map fi_name files0
       = [js ''docs'', js ''src'', js ''a.txt'', js ''b.txt'', js ''big.bin'', js ''one.bin'']
   \<and> sorted_wrt (listedBefore host0) files0"
proof -
  have tot: "\<forall>a b. localeCompare host0 a b \<le> 0 \<or> localeCompare host0 b a \<le> 0"
    using compareUnits_total by (simp add: host0_def)
  have tr: "\<forall>a b c. localeCompare host0 a b \<le> 0 \<and> localeCompare host0 b c \<le> 0
             \<longrightarrow> localeCompare host0 a c \<le> 0"
    using compareUnits_trans by (auto simp: host0_def)
  have names: "map fi_name files0
       = [js ''docs'', js ''src'', js ''a.txt'', js ''b.txt'', js ''big.bin'', js ''one.bin'']"
    by (simp add: files0_def)
  show ?thesis
    by (intro conjI listing0 names listing_sorted [OF tot tr listing0])
qed

subsection \<open>Preview\<close>

lemma length_zeros: "length (zeros n) = n"
  by (simp add: zeros_def)

text \<open>
  C3, as the code has it. Once the file is found and is not a directory, what ReadContent
  does is a function of the MIME type and the size alone, the function \<open>classify\<close>: more
  than 10 MiB is refused with 413 before any read, whatever the type; otherwise a text
  type is read as text; otherwise an image, or anything of at most 1 MiB, is read and
  handed to the Base64 encoding; otherwise the answer is 415. The 1 MiB threshold is
  inclusive. The 10 MiB ceiling itself still passes: only a larger size is too large. In
  the Base64 class the answer carries the encoded bytes when the encoding returns, and is
  500 when the encoding throws, as it does on an engine that does not accept one spread
  argument per byte of the buffer.
\<close>

theorem content_follows_classify:
  assumes "getProjectPathFromEncodedName host rt n = (lookup, Some root)" "n \<noteq> []"
    and "p \<noteq> []" "\<not> traversal p"
    and "fullPath = safeResolvePath root p"
    and "exists rt fullPath" "stat rt fullPath = Inr st" "\<not> st_isDirectory st"
    and "getMimeType (getFileExtension host p) = Mime m"
  shows "handleFileContent host rt (Some n) (Some p) =
           (case classify m (st_size st) of
              RejectTooLarge \<Rightarrow>
                (lookup @ [Exists fullPath, Stat fullPath],
                 413, ErrorBody (js ''File too large to preview''))
            | AsText \<Rightarrow>
                (lookup @ [Exists fullPath, Stat fullPath, ReadTextFile fullPath],
                 case readTextFile rt fullPath of
                   Inr content \<Rightarrow> (200, FileContentResponse content m Utf8 (st_size st))
                 | Inl e \<Rightarrow> (500, ErrorBody (errorMessage e (js ''Failed to read file''))))
            | AsBase64 \<Rightarrow>
                (lookup @ [Exists fullPath, Stat fullPath, ReadBinaryFile fullPath],
                 case readBinaryFile rt fullPath of
                   Inr buffer \<Rightarrow>
                     (case btoa host buffer of
                        Inr content \<Rightarrow> (200, FileContentResponse content m Base64 (st_size st))
                      | Inl e \<Rightarrow> (500, ErrorBody (errorMessage e (js ''Failed to read file''))))
                 | Inl e \<Rightarrow> (500, ErrorBody (errorMessage e (js ''Failed to read file''))))
            | RejectUnsupported \<Rightarrow>
                (lookup @ [Exists fullPath, Stat fullPath],
                 415, ErrorBody (js ''File type not supported for preview'')))
         \<and> (\<not> isTextFile m \<and> \<not> isImageFile m \<longrightarrow> classify m 1048576 = AsBase64)
         \<and> classify m 10485760 \<noteq> RejectTooLarge
         \<and> (\<forall>s > 10485760. classify m s = RejectTooLarge)"
  using assms found_nonempty [OF assms(1,2)]
  by (auto simp: handleFileContent_def present_def Let_def classify_def maxSize_def
      split: sum.splits)

theorem content_follows_classify_witness:
  "handleFileContent host0 runtime0 (Some (js ''-p'')) (Some (js ''docs/tiny.bin''))
   = ([ReadTextFile (js ''/h/.claude.json''), ReadDir (js ''/h/.claude/projects''),
       ReadDir (js ''/h/.claude/projects''), Exists (js ''/p/docs/tiny.bin''),
       Stat (js ''/p/docs/tiny.bin''), ReadBinaryFile (js ''/p/docs/tiny.bin'')],
      200, FileContentResponse (js ''AQID'') (js ''application/octet-stream'') Base64 3)
   \<and> handleFileContent host0 runtime0 (Some (js ''-p'')) (Some (js ''one.bin''))
   = ([ReadTextFile (js ''/h/.claude.json''), ReadDir (js ''/h/.claude/projects''),
       ReadDir (js ''/h/.claude/projects''), Exists (js ''/p/one.bin''), Stat (js ''/p/one.bin''),
       ReadBinaryFile (js ''/p/one.bin'')],
      500, ErrorBody (js ''Maximum call stack size exceeded''))"
proof -
  have n: "js ''-p'' \<noteq> []"
    by (simp add: js_def)
  have t1: "js ''docs/tiny.bin'' \<noteq> []"
    by (simp add: js_def)
  have t2: "\<not> traversal (js ''docs/tiny.bin'')"
    by (simp add: path_defs js_def)
  have t3: "js ''/p/docs/tiny.bin'' = safeResolvePath (js ''/p'') (js ''docs/tiny.bin'')"
    by (simp add: path_defs js_def)
  have t4: "exists runtime0 (js ''/p/docs/tiny.bin'')"
    by (simp add: example_defs)
  have t5: "stat runtime0 (js ''/p/docs/tiny.bin'')
            = Inr \<lparr> st_isDirectory = False, st_size = 3, st_mtime = Some 5 \<rparr>"
    by (simp add: example_defs)
  have t6: "\<not> st_isDirectory \<lparr> st_isDirectory = False, st_size = 3, st_mtime = Some 5 \<rparr>"
    by simp
  have t7: "getMimeType (getFileExtension host0 (js ''docs/tiny.bin''))
            = Mime (js ''application/octet-stream'')"
    by (simp add: getMimeType_def getFileExtension_def mimeTypes_def example_defs)
  have t8: "classify (js ''application/octet-stream'') 3 = AsBase64"
    by (simp add: classify_def isTextFile_def isImageFile_def startsWith_def js_def)
  have t9: "readBinaryFile runtime0 (js ''/p/docs/tiny.bin'') = Inr [1, 2, 3]"
    by (simp add: example_defs)
  have t10: "btoa host0 [1, 2, 3] = Inr (js ''AQID'')"
    by (simp add: host0_def b64char_def js_def)
  have tiny: "handleFileContent host0 runtime0 (Some (js ''-p'')) (Some (js ''docs/tiny.bin''))
   = ([ReadTextFile (js ''/h/.claude.json''), ReadDir (js ''/h/.claude/projects''),
       ReadDir (js ''/h/.claude/projects''), Exists (js ''/p/docs/tiny.bin''),
       Stat (js ''/p/docs/tiny.bin''), ReadBinaryFile (js ''/p/docs/tiny.bin'')],
      200, FileContentResponse (js ''AQID'') (js ''application/octet-stream'') Base64 3)"
    using content_follows_classify [OF lookup0 n t1 t2 t3 t4 t5 t6 t7]
    by (simp add: t8 t9 t10)
  have o1: "js ''one.bin'' \<noteq> []"
    by (simp add: js_def)
  have o2: "\<not> traversal (js ''one.bin'')"
    by (simp add: path_defs js_def)
  have o3: "js ''/p/one.bin'' = safeResolvePath (js ''/p'') (js ''one.bin'')"
    by (simp add: path_defs js_def)
  have o4: "exists runtime0 (js ''/p/one.bin'')"
    by (simp add: example_defs)
  have o5: "stat runtime0 (js ''/p/one.bin'')
            = Inr \<lparr> st_isDirectory = False, st_size = 1048576, st_mtime = Some 4 \<rparr>"
    by (simp add: example_defs)
  have o6: "\<not> st_isDirectory \<lparr> st_isDirectory = False, st_size = 1048576, st_mtime = Some 4 \<rparr>"
    by simp
  have o7: "getMimeType (getFileExtension host0 (js ''one.bin''))
            = Mime (js ''application/octet-stream'')"
    by (simp add: getMimeType_def getFileExtension_def mimeTypes_def example_defs)
  have o8: "classify (js ''application/octet-stream'') 1048576 = AsBase64"
    by (simp add: classify_def isTextFile_def isImageFile_def startsWith_def js_def)
  have o9: "readBinaryFile runtime0 (js ''/p/one.bin'') = Inr (zeros 1048576)"
    by (simp add: example_defs)
  have o10: "btoa host0 (zeros 1048576) = Inl (Error (js ''Maximum call stack size exceeded''))"
    by (simp add: host0_def length_zeros)
  have e: "errorMessage (Error (js ''Maximum call stack size exceeded'')) (js ''Failed to read file'')
           = js ''Maximum call stack size exceeded''"
    by (simp add: errorMessage_def)
  have one: "handleFileContent host0 runtime0 (Some (js ''-p'')) (Some (js ''one.bin''))
   = ([ReadTextFile (js ''/h/.claude.json''), ReadDir (js ''/h/.claude/projects''),
       ReadDir (js ''/h/.claude/projects''), Exists (js ''/p/one.bin''), Stat (js ''/p/one.bin''),
       ReadBinaryFile (js ''/p/one.bin'')],
      500, ErrorBody (js ''Maximum call stack size exceeded''))"
    using content_follows_classify [OF lookup0 n o1 o2 o3 o4 o5 o6 o7]
    by (simp add: o8 o9 o10 e)
  show ?thesis
    by (intro conjI tiny one)
qed

text \<open>
  C3 as stated fails at the upper threshold: the file \<^verbatim>\<open>a.txt\<close> of the example is exactly
  10485760 bytes long, and ReadContent reads it and answers 200, not 413.
\<close>

theorem ten_mib_is_previewed:
  "handleFileContent host0 runtime0 (Some (js ''-p'')) (Some (js ''a.txt''))
   = ([ReadTextFile (js ''/h/.claude.json''), ReadDir (js ''/h/.claude/projects''),
       ReadDir (js ''/h/.claude/projects''), Exists (js ''/p/a.txt''), Stat (js ''/p/a.txt''),
       ReadTextFile (js ''/p/a.txt'')],
      200, FileContentResponse (js ''text'') (js ''text/plain'') Utf8 10485760)"
  by (simp add: handleFileContent_def locator_defs path_defs example_defs maxSize_def
      getFileExtension_def getMimeType_def mimeTypes_def isTextFile_def)

subsection \<open>The download header\<close>

lemma surrogates_disjoint: "leadSurrogate c \<Longrightarrow> \<not> trailSurrogate c"
  by (simp add: leadSurrogate_def trailSurrogate_def word_le_nat_alt)

lemma unreserved_not_surrogate:
  "uriUnreserved c \<Longrightarrow> \<not> leadSurrogate c \<and> \<not> trailSurrogate c"
  by (auto simp: uriUnreserved_def leadSurrogate_def trailSurrogate_def word_le_nat_alt)

lemma encode_wellFormed: "wellFormed s \<Longrightarrow> \<exists>e. encodeURIComponent s = Some e"
proof (induction s rule: wellFormed.induct)
  case 1
  show ?case by simp
next
  case (2 c)
  then show ?case by simp
next
  case (3 c d ds)
  show ?case
  proof (cases "leadSurrogate c")
    case True
    with 3 obtain e where "trailSurrogate d" "encodeURIComponent ds = Some e"
      by auto
    with True show ?thesis
      using unreserved_not_surrogate [of c] surrogates_disjoint [of c] by auto
  next
    case False
    with 3 obtain e where "\<not> trailSurrogate c" "encodeURIComponent (d # ds) = Some e"
      by auto
    with False show ?thesis
      by (subst encodeURIComponent.simps(2)) (simp del: encodeURIComponent.simps)
  qed
qed

lemma encode_illFormed: "\<not> wellFormed s \<Longrightarrow> encodeURIComponent s = None"
proof (induction s rule: wellFormed.induct)
  case 1
  then show ?case by simp
next
  case (2 c)
  then show ?case
    using unreserved_not_surrogate [of c] by auto
next
  case (3 c d ds)
  show ?case
  proof (cases "leadSurrogate c")
    case True
    with 3 show ?thesis
      using unreserved_not_surrogate [of c] surrogates_disjoint [of c] by auto
  next
    case False
    show ?thesis
    proof (cases "trailSurrogate c")
      case True
      then show ?thesis using unreserved_not_surrogate [of c] by auto
    next
      case nt: False
      with False 3 have "encodeURIComponent (d # ds) = None" by simp
      with False nt show ?thesis
        by (subst encodeURIComponent.simps(2)) (simp del: encodeURIComponent.simps)
    qed
  qed
qed

lemma illFormed_nonAscii: "\<not> wellFormed s \<Longrightarrow> list_ex nonAscii s"
  by (induction s rule: wellFormed.induct)
    (auto simp: nonAscii_def leadSurrogate_def trailSurrogate_def word_le_nat_alt word_less_nat_alt
      split: if_splits)

lemma asciiFilename_map:
  "asciiFilename fn = map (\<lambda>c. if nonAscii c \<or> c = 0x22 \<or> c = 0x5C then 0x5F else c) fn"
  by (auto simp: asciiFilename_def quoteOrBackslash_def)

lemma disposition_resume:
  "buildContentDisposition host resume
   = Inr (js ''attachment; filename='' @ [0x22] @ js ''r_sum_.pdf'' @ [0x22]
          @ js ''; filename*=UTF-8'' @ [0x27, 0x27] @ js ''r%C3%A9sum%C3%A9.pdf'')"
  by (simp add: buildContentDisposition_def nonAscii_def asciiFilename_def quoteOrBackslash_def
      uriUnreserved_def trailSurrogate_def leadSurrogate_def escapeCodePoint_def utf8_def
      percent_def hexDigit_def js_def resume_def)

text \<open>
  C6, as the code has it. A code unit counts as non-ASCII for the builder when it lies
  outside \<^verbatim>\<open>0x20..0x7E\<close>. For a file name without such a code unit the header is
  \<^verbatim>\<open>attachment; filename="<name>"\<close>, with a backslash put before every quote and every
  backslash of the name, and nothing else. For a well-formed file name with such a code
  unit the header has the fallback, in which every such code unit, every quote and every
  backslash is replaced by an underscore, followed by \<^verbatim>\<open>filename*=UTF-8''\<close> and the
  percent-encoding of the name. A name with an unpaired surrogate has no percent-encoding:
  \<^verbatim>\<open>encodeURIComponent\<close> raises, and no header is built. The name \<open>resume\<close> gives the
  fallback \<^verbatim>\<open>r_sum_.pdf\<close> and the encoding \<^verbatim>\<open>r%C3%A9sum%C3%A9.pdf\<close>.
\<close>

theorem content_disposition:
  "(\<not> list_ex nonAscii fn \<longrightarrow>
      buildContentDisposition host fn
        = Inr (js ''attachment; filename='' @ [0x22] @ safeFilename fn @ [0x22]))
   \<and> (list_ex nonAscii fn \<and> wellFormed fn \<longrightarrow>
        (\<exists>utf8Filename. encodeURIComponent fn = Some utf8Filename
           \<and> buildContentDisposition host fn
               = Inr (js ''attachment; filename='' @ [0x22]
                      @ map (\<lambda>c. if nonAscii c \<or> c = 0x22 \<or> c = 0x5C then 0x5F else c) fn
                      @ [0x22] @ js ''; filename*=UTF-8'' @ [0x27, 0x27] @ utf8Filename)))
   \<and> (\<not> wellFormed fn \<longrightarrow> buildContentDisposition host fn = Inl (Error (uriErrorMessage host)))
   \<and> safeFilename fn = concat (map (\<lambda>c. if c = 0x22 \<or> c = 0x5C then [0x5C, c] else [c]) fn)
   \<and> buildContentDisposition host resume
       = Inr (js ''attachment; filename='' @ [0x22] @ js ''r_sum_.pdf'' @ [0x22]
              @ js ''; filename*=UTF-8'' @ [0x27, 0x27] @ js ''r%C3%A9sum%C3%A9.pdf'')"
proof (intro conjI impI)
  assume "\<not> list_ex nonAscii fn"
  then show "buildContentDisposition host fn
        = Inr (js ''attachment; filename='' @ [0x22] @ safeFilename fn @ [0x22])"
    by (simp add: buildContentDisposition_def)
next
  assume a: "list_ex nonAscii fn \<and> wellFormed fn"
  then obtain e where e: "encodeURIComponent fn = Some e"
    using encode_wellFormed by blast
  show "\<exists>utf8Filename. encodeURIComponent fn = Some utf8Filename
           \<and> buildContentDisposition host fn
               = Inr (js ''attachment; filename='' @ [0x22]
                      @ map (\<lambda>c. if nonAscii c \<or> c = 0x22 \<or> c = 0x5C then 0x5F else c) fn
                      @ [0x22] @ js ''; filename*=UTF-8'' @ [0x27, 0x27] @ utf8Filename)"
    using a e by (simp add: buildContentDisposition_def asciiFilename_map)
next
  assume "\<not> wellFormed fn"
  then show "buildContentDisposition host fn = Inl (Error (uriErrorMessage host))"
    using encode_illFormed [of fn] illFormed_nonAscii [of fn]
    by (simp add: buildContentDisposition_def)
next
  show "safeFilename fn = concat (map (\<lambda>c. if c = 0x22 \<or> c = 0x5C then [0x5C, c] else [c]) fn)"
    by (simp add: safeFilename_def quoteOrBackslash_def)
next
  show "buildContentDisposition host resume
       = Inr (js ''attachment; filename='' @ [0x22] @ js ''r_sum_.pdf'' @ [0x22]
              @ js ''; filename*=UTF-8'' @ [0x27, 0x27] @ js ''r%C3%A9sum%C3%A9.pdf'')"
    by (rule disposition_resume)
qed

theorem content_disposition_witness:
  "\<not> list_ex nonAscii (js ''plain.txt'')
   \<and> buildContentDisposition host0 (js ''plain.txt'')
       = Inr (js ''attachment; filename='' @ [0x22] @ js ''plain.txt'' @ [0x22])
   \<and> list_ex nonAscii resume \<and> wellFormed resume
   \<and> (\<exists>utf8Filename. encodeURIComponent resume = Some utf8Filename
         \<and> buildContentDisposition host0 resume
             = Inr (js ''attachment; filename='' @ [0x22] @ js ''r_sum_.pdf'' @ [0x22]
                    @ js ''; filename*=UTF-8'' @ [0x27, 0x27] @ utf8Filename))
   \<and> \<not> wellFormed [0xD800]
   \<and> buildContentDisposition host0 [0xD800] = Inl (Error (js ''URI malformed''))"
proof -
  have p: "\<not> list_ex nonAscii (js ''plain.txt'')"
    by (simp add: nonAscii_def js_def)
  have s: "safeFilename (js ''plain.txt'') = js ''plain.txt''"
    by (simp add: safeFilename_def quoteOrBackslash_def js_def)
  note r = content_disposition [of "js ''plain.txt''" host0]
  have 1: "buildContentDisposition host0 (js ''plain.txt'')
       = Inr (js ''attachment; filename='' @ [0x22] @ js ''plain.txt'' @ [0x22])"
    using r [THEN conjunct1] p by (simp only: s simp_thms)
  have n: "list_ex nonAscii resume"
    by (simp add: nonAscii_def resume_def)
  have w: "wellFormed resume"
    by (simp add: resume_def leadSurrogate_def trailSurrogate_def)
  have f: "map (\<lambda>c. if nonAscii c \<or> c = 0x22 \<or> c = 0x5C then 0x5F else c) resume = js ''r_sum_.pdf''"
    by (simp add: nonAscii_def resume_def js_def)
  note r' = content_disposition [of resume host0]
  have 2: "\<exists>utf8Filename. encodeURIComponent resume = Some utf8Filename
         \<and> buildContentDisposition host0 resume
             = Inr (js ''attachment; filename='' @ [0x22] @ js ''r_sum_.pdf'' @ [0x22]
                    @ js ''; filename*=UTF-8'' @ [0x27, 0x27] @ utf8Filename)"
    using r' [THEN conjunct2, THEN conjunct1] n w by (simp only: f simp_thms)
  have i: "\<not> wellFormed [0xD800]"
    by (simp add: leadSurrogate_def)
  have u: "uriErrorMessage host0 = js ''URI malformed''"
    by (simp add: host0_def)
  note r'' = content_disposition [of "[0xD800]" host0]
  have 3: "buildContentDisposition host0 [0xD800] = Inl (Error (js ''URI malformed''))"
    using r'' [THEN conjunct2, THEN conjunct2, THEN conjunct1] i by (simp only: u simp_thms)
  show ?thesis
    by (intro conjI p 1 n w 2 i 3)
qed

text \<open>
  C6 as stated fails for a file name with an unpaired surrogate, the one-unit name
  \<^verbatim>\<open>\uD800\<close>: it contains a non-ASCII character, and the builder raises instead of
  emitting the two parameters.
\<close>

theorem disposition_unpaired_surrogate:
  "nonAscii 0xD800 \<and> list_ex nonAscii [0xD800]
   \<and> buildContentDisposition host0 [0xD800] = Inl (Error (js ''URI malformed''))"
  by (simp add: buildContentDisposition_def nonAscii_def uriUnreserved_def trailSurrogate_def
      leadSurrogate_def host0_def)

subsection \<open>Upload\<close>

lemma decimal_now: "decimal 1700000000000 = js ''1700000000000''"
  by (simp add: decimal.simps js_def)

text \<open>
  C9. For an upload with a file and a non-empty session identifier the handler makes the
  two directories and writes the file at
  \<^verbatim>\<open><base>/.claude-temp/<sessionId>/<unixMillis>_<sanitized name>\<close>, where \<^verbatim>\<open><base>\<close> is the
  working directory of the request, or the current directory when the request has none,
  and where the sanitized name has an underscore for every code unit of the original
  name outside \<^verbatim>\<open>[A-Za-z0-9.-]\<close>. When the write succeeds the answer is a success whose
  \<^verbatim>\<open>filePath\<close> is that path relative to \<^verbatim>\<open><base>\<close>; when the write fails the answer is 500.
\<close>

theorem upload_staged:
  assumes "sessionId \<noteq> []"
  shows "fst (handleUpload host rt (Some f) (Some sessionId) wd)
           = [Mkdir (baseDirOf rt wd @ js ''/.claude-temp''),
              Mkdir (baseDirOf rt wd @ js ''/.claude-temp/'' @ sessionId),
              WriteBinaryFile (baseDirOf rt wd @ js ''/'' @ stagedName host sessionId f) (uf_content f)]
         \<and> (case writeBinaryFile rt (baseDirOf rt wd @ js ''/'' @ stagedName host sessionId f)
                  (uf_content f) of
               Inr u \<Rightarrow>
                 snd (handleUpload host rt (Some f) (Some sessionId) wd)
                   = (200, UploadResponse True (Some (stagedName host sessionId f)) None)
             | Inl e \<Rightarrow>
                 snd (handleUpload host rt (Some f) (Some sessionId) wd)
                   = (500, UploadResponse False None (Some (errorMessage e (js ''Unknown error'')))))"
  using assms
  by (simp add: handleUpload_def present_def baseDirOf_def stagedName_def safeFileName_def
      startsWith_def Let_def js_def split: option.splits sum.splits)

theorem upload_staged_witness:
  "js ''s1'' \<noteq> []
   \<and> fst (handleUpload host0 runtime0 (Some upload0) (Some (js ''s1'')) None)
       = [Mkdir (js ''/cwd/.claude-temp''), Mkdir (js ''/cwd/.claude-temp/s1''),
          WriteBinaryFile (js ''/cwd/.claude-temp/s1/1700000000000_my_file_1_.txt'') [1, 2]]
   \<and> snd (handleUpload host0 runtime0 (Some upload0) (Some (js ''s1'')) None)
       = (200, UploadResponse True (Some (js ''.claude-temp/s1/1700000000000_my_file_1_.txt'')) None)"
proof -
  have s: "js ''s1'' \<noteq> []"
    by (simp add: js_def)
  have b: "baseDirOf runtime0 None = js ''/cwd''"
    by (simp add: baseDirOf_def runtime0_def)
  have n: "stagedName host0 (js ''s1'') upload0 = js ''.claude-temp/s1/1700000000000_my_file_1_.txt''"
    by (simp add: stagedName_def host0_def upload0_def safeNameChar_def decimal_now js_def)
  have w: "writeBinaryFile runtime0 (js ''/cwd'' @ js ''/'' @ js ''.claude-temp/s1/1700000000000_my_file_1_.txt'')
             (uf_content upload0) = Inr ()"
    by (simp add: runtime0_def)
  have j: "js ''/cwd'' @ js ''/.claude-temp'' = js ''/cwd/.claude-temp''"
    "js ''/cwd'' @ js ''/.claude-temp/'' @ js ''s1'' = js ''/cwd/.claude-temp/s1''"
    "js ''/cwd'' @ js ''/'' @ js ''.claude-temp/s1/1700000000000_my_file_1_.txt''
       = js ''/cwd/.claude-temp/s1/1700000000000_my_file_1_.txt''"
    "uf_content upload0 = [1, 2]"
    by (simp_all add: js_def upload0_def)
  note r = upload_staged [OF s, of host0 runtime0 upload0 None]
  have 1: "fst (handleUpload host0 runtime0 (Some upload0) (Some (js ''s1'')) None)
       = [Mkdir (js ''/cwd/.claude-temp''), Mkdir (js ''/cwd/.claude-temp/s1''),
          WriteBinaryFile (js ''/cwd/.claude-temp/s1/1700000000000_my_file_1_.txt'') [1, 2]]"
    using r [THEN conjunct1] by (simp only: b n j)
  have 2: "snd (handleUpload host0 runtime0 (Some upload0) (Some (js ''s1'')) None)
       = (200, UploadResponse True (Some (js ''.claude-temp/s1/1700000000000_my_file_1_.txt'')) None)"
    using r [THEN conjunct2] by (simp only: b n w sum.case)
  show ?thesis
    by (intro conjI s 1 2)
qed

end
